theory Spec2Isabelle
  imports Complex_Main "HOL-Library.Char_ord" "HOL-Library.List_Lexorder"
begin

section \<open>Python values and errors\<close>

text \<open>
  The script \<^verbatim>\<open>sft-trainer-alpaca.py\<close> is one Python function, \<^verbatim>\<open>train\<close>, with two
  closures, \<^verbatim>\<open>tokenize\<close> and \<^verbatim>\<open>generate_and_tokenize_prompt\<close>. Python integers are
  unbounded, so they are \<open>int\<close>; every exception the script itself can raise is a
  value of \<open>py_error\<close>, and a function that can raise returns \<open>py_error + 'a\<close>.
\<close>

datatype py_error = AssertionError | ZeroDivisionError | IndexError | KeyError

text \<open>\<^verbatim>\<open>xs * n\<close> on a list: \<open>n\<close> copies of \<open>xs\<close>, none when \<open>n \<le> 0\<close>.\<close>

definition py_repeat :: "'a list \<Rightarrow> int \<Rightarrow> 'a list" where
  "py_repeat xs n = concat (replicate (nat n) xs)"

text \<open>\<^verbatim>\<open>xs[n:]\<close>: a negative \<open>n\<close> counts from the end, and the bounds are clipped.\<close>

definition py_slice_from :: "'a list \<Rightarrow> int \<Rightarrow> 'a list" where
  "py_slice_from xs n =
     (if n < 0 then drop (nat (int (length xs) + n)) xs else drop (nat n) xs)"

section \<open>The tokenizer (external) and \<^verbatim>\<open>tokenize\<close>\<close>

text \<open>
  The tokenizer comes from \<^verbatim>\<open>AutoTokenizer.from_pretrained(base_model)\<close>: it is a parameter
  of the model. \<open>tok_call t prompt n\<close> is the call
  \<^verbatim>\<open>tokenizer(prompt, truncation=True, max_length=n, padding=False, return_tensors=None)\<close>,
  whose result holds \<^verbatim>\<open>input_ids\<close> and \<^verbatim>\<open>attention_mask\<close>. The token ids of a tokenizer
  are integers (a tokenizer with no eos token, whose \<^verbatim>\<open>eos_token_id\<close> is \<^verbatim>\<open>None\<close>, is
  outside this type).
\<close>

record encoding =
  input_ids :: "int list"
  attention_mask :: "int list"

record tokenized = encoding +
  labels :: "int list"

record tokenizer =
  tok_call :: "string \<Rightarrow> int \<Rightarrow> encoding"
  bos_token_id :: int
  eos_token_id :: int
  pad_token_id :: int

text \<open>
  Lines 137-155. \<^verbatim>\<open>result["input_ids"][-1]\<close> is evaluated first in the condition, so an
  empty \<^verbatim>\<open>input_ids\<close> raises IndexError whatever the other two conjuncts are.
\<close>

definition tokenize :: "tokenizer \<Rightarrow> int \<Rightarrow> string \<Rightarrow> bool \<Rightarrow> py_error + tokenized" where
  "tokenize tokenizer cutoff_len prompt add_eos_token =
     (let result = tok_call tokenizer prompt cutoff_len in
      if input_ids result = [] then Inl IndexError
      else
        let result =
          (if last (input_ids result) \<noteq> eos_token_id tokenizer
               \<and> int (length (input_ids result)) < cutoff_len
               \<and> add_eos_token
           then result\<lparr>input_ids := input_ids result @ [eos_token_id tokenizer],
                       attention_mask := attention_mask result @ [1]\<rparr>
           else result)
        in Inr \<lparr>input_ids = input_ids result,
                 attention_mask = attention_mask result,
                 labels = input_ids result\<rparr>)"

section \<open>The Alpaca template and \<^verbatim>\<open>generate_and_tokenize_prompt\<close>\<close>

definition nl :: string where
  "nl = [CHR 0x0A]"

definition preamble :: string where
  "preamble = ''Below is an instruction that describes a task, paired with an input that provides further context. Write a response that appropriately completes the request.''"

text \<open>The two f-strings of lines 190 and 191.\<close>

definition full_prompt :: "string \<Rightarrow> string \<Rightarrow> string \<Rightarrow> string" where
  "full_prompt instruction input output =
     preamble @ nl @ nl @ ''### Instruction:'' @ nl @ instruction @ nl @ nl
       @ ''### Input:'' @ nl @ input @ nl @ nl @ ''### Response:'' @ nl @ output"

definition user_prompt :: "string \<Rightarrow> string \<Rightarrow> string" where
  "user_prompt instruction input =
     preamble @ nl @ nl @ ''### Instruction:'' @ nl @ instruction @ nl @ nl
       @ ''### Input:'' @ nl @ input @ nl @ nl @ ''### Response:'' @ nl"

text \<open>
  A dataset example is a dict from column names to strings; a missing column raises
  KeyError. Lines 186-212.
\<close>

type_synonym data_point = "string \<rightharpoonup> string"

definition generate_and_tokenize_prompt ::
  "tokenizer \<Rightarrow> int \<Rightarrow> bool \<Rightarrow> bool \<Rightarrow> data_point \<Rightarrow> py_error + tokenized" where
  "generate_and_tokenize_prompt tokenizer cutoff_len train_on_inputs add_eos_token data_point =
     (case data_point ''instruction'' of None \<Rightarrow> Inl KeyError | Some instruction \<Rightarrow>
     (case data_point ''input'' of None \<Rightarrow> Inl KeyError | Some input \<Rightarrow>
     (case data_point ''output'' of None \<Rightarrow> Inl KeyError | Some output \<Rightarrow>
     (case tokenize tokenizer cutoff_len (full_prompt instruction input output) True of
        Inl e \<Rightarrow> Inl e
      | Inr tokenized_full_prompt \<Rightarrow>
          if \<not> train_on_inputs then
            (case tokenize tokenizer cutoff_len (user_prompt instruction input) add_eos_token of
               Inl e \<Rightarrow> Inl e
             | Inr tokenized_user_prompt \<Rightarrow>
                 let user_prompt_len = int (length (input_ids tokenized_user_prompt));
                     user_prompt_len =
                       (if add_eos_token then user_prompt_len - 1 else user_prompt_len)
                 in Inr (tokenized_full_prompt
                      \<lparr>labels := py_repeat [- 100] user_prompt_len
                                   @ py_slice_from (labels tokenized_full_prompt) user_prompt_len\<rparr>))
          else Inr tokenized_full_prompt))))"

section \<open>The function \<^verbatim>\<open>train\<close>\<close>

subsection \<open>Arguments and environment\<close>

text \<open>
  The keyword arguments of \<^verbatim>\<open>train\<close> (lines 60-85). A Python float that is only passed
  on is a \<open>real\<close>; \<^verbatim>\<open>resume_from_checkpoint\<close> is \<^verbatim>\<open>None\<close> or a string.
\<close>

record params =
  base_model :: string
  data_path :: string
  output_dir :: string
  batch_size :: int
  micro_batch_size :: int
  num_epochs :: int
  learning_rate :: real
  cutoff_len :: int
  val_set_size :: int
  lr_scheduler :: string
  warmup_steps :: int
  lora_r :: int
  lora_alpha :: int
  lora_dropout :: real
  lora_target_modules :: "string list"
  train_on_inputs :: bool
  add_eos_token :: bool
  group_by_length :: bool
  resume_from_checkpoint :: "string option"

datatype dataset_source = Json_files string | Dataset_name string

text \<open>
  What the script reads from outside: two environment variables (numeric when set), the
  file system, the tokenizer of the base model, the \<^verbatim>\<open>train\<close> split of the loaded
  dataset, the library's split and shuffle of a dataset, and the installation. A library
  call is taken to return: an exception that only a library raises is not modelled.
\<close>

record world =
  env_LOCAL_RANK :: "int option"
  env_WORLD_SIZE :: "int option"
  path_exists :: "string \<Rightarrow> bool"
  pretrained_tokenizer :: "string \<Rightarrow> tokenizer"
  load_dataset :: "dataset_source \<Rightarrow> data_point list"
  train_test_split :: "int \<Rightarrow> data_point list \<Rightarrow> data_point list \<times> data_point list"
  ds_shuffle :: "data_point list \<Rightarrow> data_point list"
  cuda_device_count :: int
  torch_version :: string
  sys_platform :: string

text \<open>\<^verbatim>\<open>int(os.environ.get("LOCAL_RANK", 0))\<close> and \<^verbatim>\<open>int(os.environ.get("LOCAL_RANK") or 0)\<close>.\<close>

definition local_rank :: "world \<Rightarrow> int" where
  "local_rank w = (case env_LOCAL_RANK w of None \<Rightarrow> 0 | Some n \<Rightarrow> n)"

text \<open>\<^verbatim>\<open>s.endswith(suffix)\<close>, and \<^verbatim>\<open>os.path.join(a, b)\<close> for a relative \<open>b\<close> on POSIX.\<close>

definition endswith :: "string \<Rightarrow> string \<Rightarrow> bool" where
  "endswith s suffix =
     (length suffix \<le> length s \<and> drop (length s - length suffix) s = suffix)"

definition path_join :: "string \<Rightarrow> string \<Rightarrow> string" where
  "path_join a b =
     (if a = [] then b else if last a = CHR ''/'' then a @ b else a @ ''/'' @ b)"

subsection \<open>The library calls a run makes\<close>

datatype torch_dtype = Float16 | Float32

datatype device_map = Auto | On_device int

record lora_config =
  lc_r :: int
  lc_lora_alpha :: int
  lc_target_modules :: "string list"
  lc_lora_dropout :: real
  lc_bias :: string
  lc_task_type :: string

text \<open>
  The value of the variable \<^verbatim>\<open>model\<close>, as the chain of calls that produced it:
  \<^verbatim>\<open>from_pretrained\<close> with its arguments \<^verbatim>\<open>base_model\<close>, \<^verbatim>\<open>load_in_8bit\<close>,
  \<^verbatim>\<open>torch_dtype\<close> and \<^verbatim>\<open>device_map\<close>, \<^verbatim>\<open>prepare_model_for_int8_training\<close>,
  \<^verbatim>\<open>get_peft_model\<close>, \<^verbatim>\<open>torch.compile\<close>.
\<close>

datatype model =
    Pretrained string bool torch_dtype device_map
  | Prepared model
  | Peft model lora_config
  | Compiled model

record training_arguments =
  ta_per_device_train_batch_size :: int
  ta_gradient_accumulation_steps :: int
  ta_warmup_steps :: int
  ta_num_train_epochs :: int
  ta_learning_rate :: real
  ta_fp16 :: bool
  ta_logging_steps :: int
  ta_optim :: string
  ta_evaluation_strategy :: string
  ta_save_strategy :: string
  ta_eval_steps :: "int option"
  ta_save_steps :: int
  ta_lr_scheduler_type :: string
  ta_output_dir :: string
  ta_save_total_limit :: int
  ta_load_best_model_at_end :: bool
  ta_ddp_find_unused_parameters :: bool
  ta_group_by_length :: bool
  ta_remove_unused_columns :: bool

record data_collator =
  dc_pad_to_multiple_of :: int
  dc_return_tensors :: string
  dc_padding :: bool

record trainer =
  tr_model :: model
  tr_train_dataset :: "tokenized list"
  tr_eval_dataset :: "tokenized list option"
  tr_args :: training_arguments
  tr_data_collator :: data_collator

text \<open>The value passed as \<^verbatim>\<open>resume_from_checkpoint\<close>: \<^verbatim>\<open>None\<close>, \<^verbatim>\<open>False\<close> or a path.\<close>

datatype resume_value = Resume_none | Resume_false | Resume_path string

datatype dataset_part = Loaded_train | Split_train | Split_test

text \<open>
  One event per effect of the script on the outside, in the order of execution, with the
  arguments of the call. A \<^verbatim>\<open>print\<close> of a constant text is \<open>Print_banner\<close> with its line.
\<close>

datatype event =
    Print_hyperparameters params
  | Print_world_size int
  | Print_device_map device_map
  | Print_gradient_accumulation_steps int
  | Model_from_pretrained string bool torch_dtype device_map
  | Tokenizer_from_pretrained string
  | Print_special_tokens int int int
  | Set_padding_side string
  | Prepare_model_for_int8_training model
  | Get_peft_model model lora_config
  | Load_dataset dataset_source
  | Print_restarting string
  | Torch_load string
  | Set_peft_model_state_dict model string
  | Print_not_found string
  | Print_trainable_parameters model
  | Train_test_split int
  | Shuffle_and_map dataset_part
  | Print_banner nat
  | Print_sample tokenized
  | Print_decoded "int list"
  | Print_label "int list"
  | Set_model_parallel model
  | Trainer_init trainer
  | Set_use_cache model bool
  | Torch_compile model
  | Print_resume resume_value
  | Trainer_train resume_value
  | Model_save_pretrained model string
  | Torch_save string
  | Tokenizer_save_pretrained string

text \<open>
  A piece of the run: the events it emitted, and the exception it raised or its result.
  \<open>then_run\<close> is sequencing: after an exception nothing more is executed.
\<close>

type_synonym 'a run = "event list \<times> (py_error + 'a)"

definition then_run :: "'a run \<Rightarrow> ('a \<Rightarrow> 'b run) \<Rightarrow> 'b run" where
  "then_run m f =
     (case m of
        (t, Inl e) \<Rightarrow> (t, Inl e)
      | (t, Inr a) \<Rightarrow> (case f a of (t', r) \<Rightarrow> (t @ t', r)))"

subsection \<open>The body of \<^verbatim>\<open>train\<close>, piece by piece\<close>

text \<open>Lines 86-110: the hyperparameters are printed by local rank 0, then the assertion.\<close>

definition ingest_arguments :: "world \<Rightarrow> params \<Rightarrow> unit run" where
  "ingest_arguments w p =
     ((if local_rank w = 0 then [Print_hyperparameters p] else []),
      (if base_model p = [] then Inl AssertionError else Inr ()))"

text \<open>
  Lines 111-121. \<^verbatim>\<open>//\<close> is floor division, as \<open>div\<close> on \<open>int\<close> is, and raises
  ZeroDivisionError on a zero divisor. The result is \<^verbatim>\<open>device_map\<close>,
  \<^verbatim>\<open>gradient_accumulation_steps\<close> and \<^verbatim>\<open>ddp\<close>.
\<close>

definition gradient_accumulation :: "world \<Rightarrow> params \<Rightarrow> (device_map \<times> int \<times> bool) run" where
  "gradient_accumulation w p =
     (if micro_batch_size p = 0 then ([], Inl ZeroDivisionError)
      else
        let gradient_accumulation_steps = batch_size p div micro_batch_size p;
            world_size = (case env_WORLD_SIZE w of None \<Rightarrow> 1 | Some n \<Rightarrow> n);
            ddp = (world_size \<noteq> 1)
        in if ddp then
             (let device_map = On_device (local_rank w) in
              if world_size = 0
              then ([Print_world_size world_size, Print_device_map device_map],
                    Inl ZeroDivisionError)
              else
                let gradient_accumulation_steps = gradient_accumulation_steps div world_size
                in ([Print_world_size world_size, Print_device_map device_map,
                     Print_gradient_accumulation_steps gradient_accumulation_steps],
                    Inr (device_map, gradient_accumulation_steps, ddp)))
           else ([Print_world_size world_size],
                 Inr (Auto, gradient_accumulation_steps, ddp)))"

text \<open>Lines 123-135.\<close>

definition load_model_and_tokenizer ::
  "world \<Rightarrow> params \<Rightarrow> device_map \<Rightarrow> (model \<times> tokenizer) run" where
  "load_model_and_tokenizer w p device_map =
     (let model = Pretrained (base_model p) True Float16 device_map;
          tokenizer = pretrained_tokenizer w (base_model p)
      in ([Model_from_pretrained (base_model p) True Float16 device_map,
           Tokenizer_from_pretrained (base_model p),
           Print_special_tokens (bos_token_id tokenizer) (eos_token_id tokenizer)
             (pad_token_id tokenizer),
           Set_padding_side ''right''],
          Inr (model, tokenizer)))"

text \<open>Lines 216-222: the \<^verbatim>\<open>LoraConfig\<close>.\<close>

definition config :: "params \<Rightarrow> lora_config" where
  "config p =
     \<lparr>lc_r = lora_r p, lc_lora_alpha = lora_alpha p,
      lc_target_modules = lora_target_modules p, lc_lora_dropout = lora_dropout p,
      lc_bias = ''none'', lc_task_type = ''CAUSAL_LM''\<rparr>"

text \<open>Lines 214 and 224.\<close>

definition attach_adapter :: "params \<Rightarrow> model \<Rightarrow> model run" where
  "attach_adapter p model =
     ([Prepare_model_for_int8_training model, Get_peft_model (Prepared model) (config p)],
      Inr (Peft (Prepared model) (config p)))"

text \<open>Lines 226-229; the result is \<^verbatim>\<open>data["train"]\<close>.\<close>

definition load_data :: "world \<Rightarrow> params \<Rightarrow> (data_point list) run" where
  "load_data w p =
     (let source =
        (if endswith (data_path p) ''.json'' \<or> endswith (data_path p) ''.jsonl''
         then Json_files (data_path p) else Dataset_name (data_path p))
      in ([Load_dataset source], Inr (load_dataset w source)))"

text \<open>
  Lines 231-249. A string is true when it is not empty. The result is the new value of
  the variable \<^verbatim>\<open>resume_from_checkpoint\<close>.
\<close>

definition restore_checkpoint :: "world \<Rightarrow> params \<Rightarrow> model \<Rightarrow> resume_value run" where
  "restore_checkpoint w p model =
     (case resume_from_checkpoint p of
        None \<Rightarrow> ([], Inr Resume_none)
      | Some dir \<Rightarrow>
          if dir = [] then ([], Inr (Resume_path dir))
          else
            let full = path_join dir ''pytorch_model.bin'';
                (checkpoint_name, resume) =
                  (if \<not> path_exists w full
                   then (path_join dir ''adapter_model.bin'', Resume_false)
                   else (full, Resume_path dir))
            in if path_exists w checkpoint_name
               then ([Print_restarting checkpoint_name, Torch_load checkpoint_name,
                      Set_peft_model_state_dict model checkpoint_name],
                     Inr resume)
               else ([Print_not_found checkpoint_name], Inr resume))"

text \<open>\<^verbatim>\<open>dataset.map(f)\<close>: the examples in order, stopping at the first exception.\<close>

fun map_examples :: "('a \<Rightarrow> py_error + 'b) \<Rightarrow> 'a list \<Rightarrow> py_error + 'b list" where
  "map_examples f [] = Inr []"
| "map_examples f (x # xs) =
     (case f x of
        Inl e \<Rightarrow> Inl e
      | Inr y \<Rightarrow> (case map_examples f xs of Inl e \<Rightarrow> Inl e | Inr ys \<Rightarrow> Inr (y # ys)))"

text \<open>
  Lines 253-277; the result is \<^verbatim>\<open>train_data\<close> and \<^verbatim>\<open>val_data\<close>. The prints of the first
  sample stand in the \<^verbatim>\<open>else\<close> branch, and \<^verbatim>\<open>train_data[0]\<close> raises IndexError on an
  empty dataset.
\<close>

definition build_datasets ::
  "world \<Rightarrow> params \<Rightarrow> tokenizer \<Rightarrow> data_point list
     \<Rightarrow> (tokenized list \<times> tokenized list option) run" where
  "build_datasets w p tokenizer data =
     (let f = generate_and_tokenize_prompt tokenizer (cutoff_len p) (train_on_inputs p)
                (add_eos_token p)
      in if val_set_size p > 0 then
           (let train_val = train_test_split w (val_set_size p) data in
            case map_examples f (ds_shuffle w (fst train_val)) of
              Inl e \<Rightarrow> ([Train_test_split (val_set_size p), Shuffle_and_map Split_train], Inl e)
            | Inr train_data \<Rightarrow>
                (case map_examples f (ds_shuffle w (snd train_val)) of
                   Inl e \<Rightarrow>
                     ([Train_test_split (val_set_size p), Shuffle_and_map Split_train,
                       Shuffle_and_map Split_test], Inl e)
                 | Inr val_data \<Rightarrow>
                     ([Train_test_split (val_set_size p), Shuffle_and_map Split_train,
                       Shuffle_and_map Split_test], Inr (train_data, Some val_data))))
         else
           (case map_examples f (ds_shuffle w data) of
              Inl e \<Rightarrow> ([Shuffle_and_map Loaded_train], Inl e)
            | Inr train_data \<Rightarrow>
                (case train_data of
                   [] \<Rightarrow> ([Shuffle_and_map Loaded_train, Print_banner 268], Inl IndexError)
                 | first # _ \<Rightarrow>
                     let first_label =
                           map (\<lambda>x. if x = - 100 then pad_token_id tokenizer else x)
                             (labels first)
                     in ([Shuffle_and_map Loaded_train, Print_banner 268, Print_sample first,
                          Print_banner 270, Print_decoded (input_ids first),
                          Print_banner 273, Print_banner 275, Print_label first_label,
                          Print_decoded first_label],
                         Inr (train_data, None)))))"

text \<open>Lines 288-310: the \<^verbatim>\<open>TrainingArguments\<close>.\<close>

definition args :: "params \<Rightarrow> int \<Rightarrow> training_arguments" where
  "args p gradient_accumulation_steps =
     \<lparr>ta_per_device_train_batch_size = micro_batch_size p,
      ta_gradient_accumulation_steps = gradient_accumulation_steps,
      ta_warmup_steps = warmup_steps p,
      ta_num_train_epochs = num_epochs p,
      ta_learning_rate = learning_rate p,
      ta_fp16 = True,
      ta_logging_steps = 1,
      ta_optim = ''adamw_torch'',
      ta_evaluation_strategy = (if val_set_size p > 0 then ''steps'' else ''no''),
      ta_save_strategy = ''steps'',
      ta_eval_steps = (if val_set_size p > 0 then Some 200 else None),
      ta_save_steps = 1000,
      ta_lr_scheduler_type = lr_scheduler p,
      ta_output_dir = output_dir p,
      ta_save_total_limit = 2,
      ta_load_best_model_at_end = (if val_set_size p > 0 then True else False),
      ta_ddp_find_unused_parameters = False,
      ta_group_by_length = group_by_length p,
      ta_remove_unused_columns = True\<rparr>"

text \<open>Lines 279-315: the model-parallel flags, then the \<^verbatim>\<open>Trainer\<close>.\<close>

definition make_trainer ::
  "world \<Rightarrow> params \<Rightarrow> bool \<Rightarrow> int \<Rightarrow> model \<Rightarrow> tokenized list \<Rightarrow> tokenized list option
     \<Rightarrow> unit run" where
  "make_trainer w p ddp gradient_accumulation_steps model train_data val_data =
     ((if \<not> ddp \<and> cuda_device_count w > 1 then [Set_model_parallel model] else [])
      @ [Trainer_init
           \<lparr>tr_model = model,
            tr_train_dataset = train_data,
            tr_eval_dataset = val_data,
            tr_args = args p gradient_accumulation_steps,
            tr_data_collator =
              \<lparr>dc_pad_to_multiple_of = 8, dc_return_tensors = ''pt'', dc_padding = True\<rparr>\<rparr>],
      Inr ())"

text \<open>
  Lines 316-329. \<^verbatim>\<open>torch.__version__ >= "2"\<close> compares strings, in lexicographic order.
\<close>

definition train_and_save :: "world \<Rightarrow> params \<Rightarrow> model \<Rightarrow> resume_value \<Rightarrow> unit run" where
  "train_and_save w p model resume =
     (let compile = (torch_version w \<ge> ''2'' \<and> sys_platform w \<noteq> ''win32'');
          model' = (if compile then Compiled model else model)
      in ([Set_use_cache model False]
          @ (if compile then [Torch_compile model] else [])
          @ [Print_banner 321, Print_resume resume,
             Trainer_train resume,
             Model_save_pretrained model' (output_dir p),
             Torch_save (path_join (output_dir p) ''pytorch_model.bin''),
             Tokenizer_save_pretrained (output_dir p)],
          Inr ()))"

text \<open>
  The whole of \<^verbatim>\<open>train\<close>: the events of the run, and the exception that ended it, if
  any.
\<close>

definition train :: "world \<Rightarrow> params \<Rightarrow> event list \<times> py_error option" where
  "train w p =
     (case
        then_run (ingest_arguments w p) (\<lambda>_.
        then_run (gradient_accumulation w p) (\<lambda>(device_map, gradient_accumulation_steps, ddp).
        then_run (load_model_and_tokenizer w p device_map) (\<lambda>(model, tokenizer).
        then_run (attach_adapter p model) (\<lambda>model.
        then_run (load_data w p) (\<lambda>data.
        then_run (restore_checkpoint w p model) (\<lambda>resume.
        then_run ([Print_trainable_parameters model], Inr ()) (\<lambda>_.
        then_run (build_datasets w p tokenizer data) (\<lambda>(train_data, val_data).
        then_run (make_trainer w p ddp gradient_accumulation_steps model train_data val_data)
          (\<lambda>_.
        train_and_save w p model resume)))))))))
      of (t, Inl e) \<Rightarrow> (t, Some e) | (t, Inr _) \<Rightarrow> (t, None))"

section \<open>Reading a trace\<close>

text \<open>
  The stages the specification names, and the stage an event belongs to: printing the
  arguments; loading the base model and the tokenizer; attaching the adapter; loading,
  splitting and tokenizing the dataset; the delegated training loop; saving to
  \<^verbatim>\<open>output_dir\<close>. Every other event (a progress message, the restoring of a checkpoint,
  the construction of the trainer) belongs to none.
\<close>

datatype stage = Arguments | Load | Adapter | Data | Training_loop | Save

fun stage_of :: "event \<Rightarrow> stage option" where
  "stage_of (Print_hyperparameters _) = Some Arguments"
| "stage_of (Model_from_pretrained _ _ _ _) = Some Load"
| "stage_of (Tokenizer_from_pretrained _) = Some Load"
| "stage_of (Prepare_model_for_int8_training _) = Some Adapter"
| "stage_of (Get_peft_model _ _) = Some Adapter"
| "stage_of (Load_dataset _) = Some Data"
| "stage_of (Train_test_split _) = Some Data"
| "stage_of (Shuffle_and_map _) = Some Data"
| "stage_of (Trainer_train _) = Some Training_loop"
| "stage_of (Model_save_pretrained _ _) = Some Save"
| "stage_of (Torch_save _) = Some Save"
| "stage_of (Tokenizer_save_pretrained _) = Some Save"
| "stage_of _ = None"

text \<open>The stages of a trace, in order, a run of events of one stage counted once.\<close>

definition stages :: "event list \<Rightarrow> stage list" where
  "stages t = remdups_adj (List.map_filter stage_of t)"

text \<open>The events of a trace that belong to a stage.\<close>

definition staged :: "event list \<Rightarrow> event list" where
  "staged t = filter (\<lambda>e. stage_of e \<noteq> None) t"

text \<open>The calls that load the base model and attach the adapter.\<close>

fun is_model_call :: "event \<Rightarrow> bool" where
  "is_model_call (Model_from_pretrained _ _ _ _) = True"
| "is_model_call (Prepare_model_for_int8_training _) = True"
| "is_model_call (Get_peft_model _ _) = True"
| "is_model_call _ = False"

text \<open>The trainers constructed, and the values \<^verbatim>\<open>trainer.train\<close> was called with.\<close>

fun trainer_of :: "event \<Rightarrow> trainer option" where
  "trainer_of (Trainer_init t) = Some t"
| "trainer_of _ = None"

definition trainers :: "event list \<Rightarrow> trainer list" where
  "trainers t = List.map_filter trainer_of t"

fun resumed_with :: "event \<Rightarrow> resume_value option" where
  "resumed_with (Trainer_train r) = Some r"
| "resumed_with _ = None"

definition train_calls :: "event list \<Rightarrow> resume_value list" where
  "train_calls t = List.map_filter resumed_with t"

text \<open>The events of restoring a checkpoint (lines 245-249).\<close>

fun is_checkpoint_event :: "event \<Rightarrow> bool" where
  "is_checkpoint_event (Print_restarting _) = True"
| "is_checkpoint_event (Torch_load _) = True"
| "is_checkpoint_event (Set_peft_model_state_dict _ _) = True"
| "is_checkpoint_event (Print_not_found _) = True"
| "is_checkpoint_event _ = False"

section \<open>Sample environments\<close>

text \<open>
  Concrete tokenizers and examples on which the model is evaluated. \<open>char_tokenizer\<close>
  has one token per character (its code), no bos and no eos of its own, and keeps the
  first \<open>max_length\<close> tokens.
\<close>

definition char_tokenizer :: tokenizer where
  "char_tokenizer =
     \<lparr>tok_call = (\<lambda>prompt n.
          \<lparr>input_ids = take (nat n) (map (\<lambda>c. int (of_char c)) prompt),
           attention_mask = map (\<lambda>_. 1) (take (nat n) prompt)\<rparr>),
      bos_token_id = 1, eos_token_id = 0, pad_token_id = 0\<rparr>"

text \<open>
  \<open>merging_tokenizer\<close> has one token per character too, but, as a byte-pair tokenizer
  does, it merges a frequent sequence into one token (here a colon followed by two
  newlines, token 256), and it ends every encoding with its own eos token 257.
\<close>

fun merge_tokens :: "string \<Rightarrow> int list" where
  "merge_tokens (a # b # c # cs) =
     (if a = CHR '':'' \<and> b = CHR 0x0A \<and> c = CHR 0x0A then 256 # merge_tokens cs
      else int (of_char a) # merge_tokens (b # c # cs))"
| "merge_tokens (a # cs) = int (of_char a) # merge_tokens cs"
| "merge_tokens [] = [257]"

definition merging_tokenizer :: tokenizer where
  "merging_tokenizer =
     \<lparr>tok_call = (\<lambda>prompt n.
          \<lparr>input_ids = take (nat n) (merge_tokens prompt),
           attention_mask = map (\<lambda>_. 1) (take (nat n) (merge_tokens prompt))\<rparr>),
      bos_token_id = 258, eos_token_id = 257, pad_token_id = 257\<rparr>"

definition sample_point :: data_point where
  "sample_point = [''instruction'' \<mapsto> ''a'', ''input'' \<mapsto> ''b'', ''output'' \<mapsto> ''cd'']"

text \<open>An example whose response is a single newline.\<close>

definition newline_point :: data_point where
  "newline_point =
     [''instruction'' \<mapsto> ''a'', ''input'' \<mapsto> ''b'', ''output'' \<mapsto> [CHR 0x0A]]"

text \<open>
  The default arguments of \<^verbatim>\<open>train\<close>, with a base model, a data path, an output
  directory and a short \<^verbatim>\<open>cutoff_len\<close>.
\<close>

definition sample_params :: params where
  "sample_params =
     \<lparr>base_model = ''base'', data_path = ''data.json'', output_dir = ''out'',
      batch_size = 128, micro_batch_size = 8, num_epochs = 1, learning_rate = 3 / 10000,
      cutoff_len = 4, val_set_size = 0, lr_scheduler = ''cosine'', warmup_steps = 100,
      lora_r = 16, lora_alpha = 16, lora_dropout = 5 / 100,
      lora_target_modules = [''gate_proj'', ''down_proj'', ''up_proj''],
      train_on_inputs = False, add_eos_token = False, group_by_length = False,
      resume_from_checkpoint = None\<rparr>"

text \<open>
  A single process on one device with no checkpoint on disk; the dataset has two
  examples, a shuffle reverses it, and a split holds out the last examples.
\<close>

definition sample_world :: world where
  "sample_world =
     \<lparr>env_LOCAL_RANK = None, env_WORLD_SIZE = None,
      path_exists = (\<lambda>_. False),
      pretrained_tokenizer = (\<lambda>_. char_tokenizer),
      load_dataset = (\<lambda>_. [sample_point, newline_point]),
      train_test_split = (\<lambda>n xs. (take (length xs - nat n) xs, drop (length xs - nat n) xs)),
      ds_shuffle = rev,
      cuda_device_count = 1, torch_version = ''2.0.1'', sys_platform = ''linux''\<rparr>"

text \<open>
  The second of two processes (\<^verbatim>\<open>LOCAL_RANK=1\<close>, \<^verbatim>\<open>WORLD_SIZE=2\<close>), and a file system that
  holds the adapter weights of the checkpoint directory \<^verbatim>\<open>ckpt\<close> and nothing else.
\<close>

definition ddp_world :: world where
  "ddp_world = sample_world\<lparr>env_LOCAL_RANK := Some 1, env_WORLD_SIZE := Some 2\<rparr>"

definition adapter_only_world :: world where
  "adapter_only_world =
     sample_world\<lparr>path_exists := (\<lambda>path. path = ''ckpt/adapter_model.bin'')\<rparr>"

section \<open>Properties of \<^verbatim>\<open>tokenize\<close>\<close>

lemma tokenize_labels: "tokenize tk cl p aet = Inr r \<Longrightarrow> labels r = input_ids r"
  by (auto simp: tokenize_def Let_def split: if_splits)

lemma tokenize_nonempty: "tokenize tk cl p aet = Inr r \<Longrightarrow> input_ids r \<noteq> []"
  by (auto simp: tokenize_def Let_def split: if_splits)

lemma tokenize_returns:
  "input_ids (tok_call tk p cl) \<noteq> [] \<Longrightarrow> \<exists>r. tokenize tk cl p aet = Inr r"
  by (simp add: tokenize_def Let_def)

lemma tokenize_empty:
  "input_ids (tok_call tk p cl) = [] \<Longrightarrow> tokenize tk cl p aet = Inl IndexError"
  by (simp add: tokenize_def)




text \<open>The equations that evaluate a run on a sample environment.\<close>

lemmas sample_defs =
  generate_and_tokenize_prompt_def sample_point_def newline_point_def tokenize_def
  char_tokenizer_def merging_tokenizer_def full_prompt_def user_prompt_def preamble_def
  nl_def py_repeat_def py_slice_from_def Let_def

section \<open>Properties of \<^verbatim>\<open>generate_and_tokenize_prompt\<close>\<close>

lemma py_repeat_single: "py_repeat [x] n = replicate (nat n) x"
  by (induction "nat n" arbitrary: n) (auto simp: py_repeat_def)

lemma py_slice_from_nonneg: "0 \<le> n \<Longrightarrow> py_slice_from xs n = drop (nat n) xs"
  by (simp add: py_slice_from_def)

lemma full_prompt_extends_user_prompt:
  "full_prompt instruction input output = user_prompt instruction input @ output"
  by (simp add: full_prompt_def user_prompt_def)

lemma generate_cases:
  assumes "generate_and_tokenize_prompt tk cl toi aet dp = Inr r"
  obtains ins inp out tfp where
    "dp ''instruction'' = Some ins" "dp ''input'' = Some inp" "dp ''output'' = Some out"
    "tokenize tk cl (full_prompt ins inp out) True = Inr tfp"
    "toi \<Longrightarrow> r = tfp"
    "\<not> toi \<Longrightarrow> \<exists>tup. tokenize tk cl (user_prompt ins inp) aet = Inr tup \<and>
        r = tfp\<lparr>labels := py_repeat [- 100] (int (length (input_ids tup)) - (if aet then 1 else 0))
                @ py_slice_from (labels tfp) (int (length (input_ids tup)) - (if aet then 1 else 0))\<rparr>"
  using assms
  by (auto simp: generate_and_tokenize_prompt_def Let_def split: option.splits sum.splits if_splits)

lemma generate_masked:
  assumes "generate_and_tokenize_prompt tk cl False aet dp = Inr r"
  obtains ins inp out tfp tup n where
    "dp ''instruction'' = Some ins" "dp ''input'' = Some inp" "dp ''output'' = Some out"
    "tokenize tk cl (full_prompt ins inp out) True = Inr tfp"
    "tokenize tk cl (user_prompt ins inp) aet = Inr tup"
    "n = int (length (input_ids tup)) - (if aet then 1 else 0)" "0 \<le> n"
    "input_ids r = input_ids tfp" "attention_mask r = attention_mask tfp"
    "labels r = replicate (nat n) (- 100) @ drop (nat n) (input_ids tfp)"
proof -
  from assms obtain ins inp out tfp tup where
    dp: "dp ''instruction'' = Some ins" "dp ''input'' = Some inp" "dp ''output'' = Some out"
    and tf: "tokenize tk cl (full_prompt ins inp out) True = Inr tfp"
    and tu: "tokenize tk cl (user_prompt ins inp) aet = Inr tup"
    and r: "r = tfp\<lparr>labels := py_repeat [- 100] (int (length (input_ids tup)) - (if aet then 1 else 0))
                @ py_slice_from (labels tfp) (int (length (input_ids tup)) - (if aet then 1 else 0))\<rparr>"
    by (auto elim!: generate_cases)
  define n where "n = int (length (input_ids tup)) - (if aet then 1 else 0)"
  have "input_ids tup \<noteq> []" using tu by (rule tokenize_nonempty)
  then have n0: "0 \<le> n" by (cases "input_ids tup") (auto simp: n_def)
  have "labels r = replicate (nat n) (- 100) @ drop (nat n) (input_ids tfp)"
    using r n0 tokenize_labels[OF tf]
    by (simp add: n_def[symmetric] py_repeat_single py_slice_from_nonneg)
  moreover have "input_ids r = input_ids tfp" "attention_mask r = attention_mask tfp"
    using r by simp_all
  ultimately show thesis using that[OF dp tf tu n_def n0] by blast
qed

lemma generate_returns:
  assumes "dp ''instruction'' = Some ins" and "dp ''input'' = Some inp"
      and "dp ''output'' = Some out"
      and "input_ids (tok_call tk (full_prompt ins inp out) cl) \<noteq> []"
      and "toi \<or> input_ids (tok_call tk (user_prompt ins inp) cl) \<noteq> []"
  shows "\<exists>r. generate_and_tokenize_prompt tk cl toi aet dp = Inr r"
proof -
  obtain tfp where tf: "tokenize tk cl (full_prompt ins inp out) True = Inr tfp"
    using tokenize_returns[OF assms(4)] by blast
  show ?thesis
  proof (cases toi)
    case True
    with assms(1-3) tf show ?thesis
      by (simp add: generate_and_tokenize_prompt_def)
  next
    case False
    with assms(5) obtain tup where "tokenize tk cl (user_prompt ins inp) aet = Inr tup"
      using tokenize_returns by blast
    with False assms(1-3) tf show ?thesis
      by (simp add: generate_and_tokenize_prompt_def Let_def)
  qed
qed

lemma generate_from_template:
  assumes "generate_and_tokenize_prompt tk cl toi aet dp = Inr ex"
  shows "\<exists>instruction input output tfp.
           dp ''instruction'' = Some instruction \<and> dp ''input'' = Some input
         \<and> dp ''output'' = Some output
         \<and> tokenize tk cl (full_prompt instruction input output) True = Inr tfp
         \<and> input_ids ex = input_ids tfp \<and> attention_mask ex = attention_mask tfp"
proof (cases toi)
  case True
  with assms show ?thesis by (auto elim!: generate_cases)
next
  case False
  with assms have "generate_and_tokenize_prompt tk cl False aet dp = Inr ex" by simp
  then show ?thesis by (elim generate_masked) blast
qed

text \<open>
  Claim C1. Take an example with the three columns whose two prompts the tokenizer
  encodes as at least one token, and \<^verbatim>\<open>train_on_inputs\<close> false. Then
  \<^verbatim>\<open>generate_and_tokenize_prompt\<close> returns some \<open>r\<close>. Let \<open>user_prompt_len\<close> be the number of
  input ids of the tokenized prompt without the response, less one when
  \<^verbatim>\<open>add_eos_token\<close> is true. It is not negative, the first \<open>user_prompt_len\<close> labels of \<open>r\<close>
  are \<open>-100\<close>, and the labels after them are the token ids of the tokenized full prompt at
  the same positions. The input ids of \<open>r\<close> are those of the tokenized full prompt.
\<close>

theorem masked_labels:
  assumes "dp ''instruction'' = Some instruction" and "dp ''input'' = Some input"
      and "dp ''output'' = Some output"
      and "input_ids (tok_call tk (full_prompt instruction input output) cl) \<noteq> []"
      and "input_ids (tok_call tk (user_prompt instruction input) cl) \<noteq> []"
  shows "\<exists>r tfp tup.
           generate_and_tokenize_prompt tk cl False aet dp = Inr r
         \<and> tokenize tk cl (full_prompt instruction input output) True = Inr tfp
         \<and> tokenize tk cl (user_prompt instruction input) aet = Inr tup
         \<and> input_ids r = input_ids tfp
         \<and> (let user_prompt_len = int (length (input_ids tup)) - (if aet then 1 else 0) in
              0 \<le> user_prompt_len
            \<and> take (nat user_prompt_len) (labels r) = replicate (nat user_prompt_len) (- 100)
            \<and> drop (nat user_prompt_len) (labels r) = drop (nat user_prompt_len) (input_ids tfp))"
proof -
  have "\<exists>r. generate_and_tokenize_prompt tk cl False aet dp = Inr r"
    by (rule generate_returns[OF assms(1-4)]) (simp add: assms(5))
  then obtain r where r: "generate_and_tokenize_prompt tk cl False aet dp = Inr r"
    by blast
  then obtain ins inp out tfp tup n where
    dp: "dp ''instruction'' = Some ins" "dp ''input'' = Some inp" "dp ''output'' = Some out"
    and tf: "tokenize tk cl (full_prompt ins inp out) True = Inr tfp"
    and tu: "tokenize tk cl (user_prompt ins inp) aet = Inr tup"
    and n: "n = int (length (input_ids tup)) - (if aet then 1 else 0)" "0 \<le> n"
    and ids: "input_ids r = input_ids tfp" "attention_mask r = attention_mask tfp"
    and lab: "labels r = replicate (nat n) (- 100) @ drop (nat n) (input_ids tfp)"
    by (rule generate_masked)
  from dp assms(1-3) have v: "ins = instruction" "inp = input" "out = output"
    by simp_all
  have "take (nat n) (labels r) = replicate (nat n) (- 100)"
    by (simp add: lab)
  moreover have "drop (nat n) (labels r) = drop (nat n) (input_ids tfp)"
    by (simp add: lab)
  ultimately show ?thesis
    using r tf tu n ids(1) unfolding Let_def v by blast
qed

lemma sample_point_columns:
  "sample_point ''instruction'' = Some ''a''" "sample_point ''input'' = Some ''b''"
  "sample_point ''output'' = Some ''cd''"
  by (simp_all add: sample_point_def)

lemma sample_encodings_nonempty:
  "input_ids (tok_call char_tokenizer (full_prompt ''a'' ''b'' ''cd'') 512) \<noteq> []"
  "input_ids (tok_call char_tokenizer (user_prompt ''a'' ''b'') 512) \<noteq> []"
  by (simp_all add: char_tokenizer_def full_prompt_def user_prompt_def preamble_def nl_def)

lemma sample_user_len:
  "length (input_ids (projr (tokenize char_tokenizer 512 (user_prompt ''a'' ''b'') False))) = 207"
  by (simp add: sample_defs)

lemma sample_full_tail:
  "drop 207 (input_ids (projr (tokenize char_tokenizer 512 (full_prompt ''a'' ''b'' ''cd'') True)))
     = [99, 100, 0]"
  by (simp add: sample_defs)

text \<open>
  A run of C1: with one token per character the user prompt has 207 tokens; the two
  characters of the response and the appended eos token keep their ids as labels.
\<close>

theorem masked_labels_witness:
  "\<exists>r. generate_and_tokenize_prompt char_tokenizer 512 False False sample_point = Inr r
     \<and> take 207 (labels r) = replicate 207 (- 100)
     \<and> drop 207 (labels r) = [99, 100, 0]"
proof -
  from masked_labels[OF sample_point_columns sample_encodings_nonempty, where aet = False]
  obtain r tfp tup where
    r: "generate_and_tokenize_prompt char_tokenizer 512 False False sample_point = Inr r"
    and tf: "tokenize char_tokenizer 512 (full_prompt ''a'' ''b'' ''cd'') True = Inr tfp"
    and tu: "tokenize char_tokenizer 512 (user_prompt ''a'' ''b'') False = Inr tup"
    and t: "take (nat (int (length (input_ids tup)))) (labels r)
              = replicate (nat (int (length (input_ids tup)))) (- 100)"
    and d: "drop (nat (int (length (input_ids tup)))) (labels r)
              = drop (nat (int (length (input_ids tup)))) (input_ids tfp)"
    unfolding Let_def by auto
  have len: "length (input_ids tup) = 207"
    using sample_user_len unfolding tu by simp
  have tail: "drop 207 (input_ids tfp) = [99, 100, 0]"
    using sample_full_tail unfolding tf by simp
  have "take 207 (labels r) = replicate 207 (- 100)"
    using t unfolding len by simp
  moreover have "drop 207 (labels r) = [99, 100, 0]"
    using d tail unfolding len by simp
  ultimately show ?thesis using r by blast
qed

text \<open>
  Claim C2, amended. When \<^verbatim>\<open>generate_and_tokenize_prompt\<close> returns \<open>r\<close>: with
  \<^verbatim>\<open>train_on_inputs\<close> true the labels are as many as the input ids; with it false the
  labels are \<open>max (len input_ids) user_prompt_len\<close> many, so they are as many as the
  input ids exactly when \<open>user_prompt_len\<close> does not exceed the number of input ids.
\<close>

theorem labels_length:
  assumes "generate_and_tokenize_prompt tk cl toi aet dp = Inr r"
  shows "if toi then length (labels r) = length (input_ids r)
         else (\<exists>instruction input tup.
                 dp ''instruction'' = Some instruction \<and> dp ''input'' = Some input
               \<and> tokenize tk cl (user_prompt instruction input) aet = Inr tup
               \<and> (let user_prompt_len = int (length (input_ids tup)) - (if aet then 1 else 0) in
                    int (length (labels r)) = max (int (length (input_ids r))) user_prompt_len
                  \<and> (length (labels r) = length (input_ids r))
                      = (user_prompt_len \<le> int (length (input_ids r)))))"
proof (cases toi)
  case True
  with assms obtain ins inp out where "tokenize tk cl (full_prompt ins inp out) True = Inr r"
    by (auto elim!: generate_cases)
  then have "labels r = input_ids r" by (rule tokenize_labels)
  with True show ?thesis by simp
next
  case False
  with assms have "generate_and_tokenize_prompt tk cl False aet dp = Inr r" by simp
  then obtain ins inp out tfp tup n where
    dp: "dp ''instruction'' = Some ins" "dp ''input'' = Some inp" "dp ''output'' = Some out"
    and tf: "tokenize tk cl (full_prompt ins inp out) True = Inr tfp"
    and tu: "tokenize tk cl (user_prompt ins inp) aet = Inr tup"
    and n: "n = int (length (input_ids tup)) - (if aet then 1 else 0)" "0 \<le> n"
    and ids: "input_ids r = input_ids tfp" "attention_mask r = attention_mask tfp"
    and lab: "labels r = replicate (nat n) (- 100) @ drop (nat n) (input_ids tfp)"
    by (rule generate_masked)
  have len: "int (length (labels r)) = max (int (length (input_ids r))) n"
    using n(2) by (simp add: lab ids)
  then have "(length (labels r) = length (input_ids r)) = (n \<le> int (length (input_ids r)))"
    by linarith
  with len have "let user_prompt_len = int (length (input_ids tup)) - (if aet then 1 else 0) in
                    int (length (labels r)) = max (int (length (input_ids r))) user_prompt_len
                  \<and> (length (labels r) = length (input_ids r))
                      = (user_prompt_len \<le> int (length (input_ids r)))"
    unfolding Let_def n(1) by simp
  with dp(1,2) tu have "\<exists>instruction input tup.
                 dp ''instruction'' = Some instruction \<and> dp ''input'' = Some input
               \<and> tokenize tk cl (user_prompt instruction input) aet = Inr tup
               \<and> (let user_prompt_len = int (length (input_ids tup)) - (if aet then 1 else 0) in
                    int (length (labels r)) = max (int (length (input_ids r))) user_prompt_len
                  \<and> (length (labels r) = length (input_ids r))
                      = (user_prompt_len \<le> int (length (input_ids r))))"
    by blast
  with False show ?thesis by simp
qed

lemma sample_run:
  "\<exists>r. generate_and_tokenize_prompt char_tokenizer 512 False False sample_point = Inr r
     \<and> length (input_ids r) = 210 \<and> labels r = replicate 207 (- 100) @ [99, 100, 0]"
  by (simp add: sample_defs)

text \<open>A run of C2 in which the lengths agree: 210 input ids and 210 labels.\<close>

theorem labels_length_witness:
  "\<exists>r. generate_and_tokenize_prompt char_tokenizer 512 False False sample_point = Inr r
     \<and> length (labels r) = 210 \<and> length (input_ids r) = 210"
proof -
  obtain r where r: "generate_and_tokenize_prompt char_tokenizer 512 False False sample_point = Inr r"
    and len: "length (input_ids r) = 210"
    using sample_run by blast
  from labels_length[OF r] obtain ins inp tup where
    dp: "sample_point ''instruction'' = Some ins" "sample_point ''input'' = Some inp"
    and tu: "tokenize char_tokenizer 512 (user_prompt ins inp) False = Inr tup"
    and l: "int (length (labels r)) = max (int (length (input_ids r))) (int (length (input_ids tup)))"
    unfolding Let_def by auto
  from dp have v: "ins = ''a''" "inp = ''b''"
    by (simp_all add: sample_point_def)
  have "length (input_ids tup) = 207"
    using sample_user_len unfolding tu[unfolded v] by simp
  with l len have "length (labels r) = 210" by simp
  with len r show ?thesis by blast
qed

lemma newline_run:
  "\<exists>r. generate_and_tokenize_prompt merging_tokenizer 512 False False newline_point = Inr r
     \<and> length (input_ids r) = 207 \<and> length (labels r) = 208"
  by (simp add: sample_defs)

text \<open>
  Claim C2 as stated fails. The tokenizer merges the colon and newline that end the user
  prompt with the newline of the response, and ends every encoding with eos itself: the
  user prompt has 208 tokens, the full prompt 207, and with \<^verbatim>\<open>add_eos_token\<close> false the
  208 masked labels outnumber the 207 input ids.
\<close>

theorem labels_length_counterexample:
  "\<not> isl (generate_and_tokenize_prompt merging_tokenizer 512 False False newline_point)
   \<and> length (input_ids (projr
        (generate_and_tokenize_prompt merging_tokenizer 512 False False newline_point))) = 207
   \<and> length (labels (projr
        (generate_and_tokenize_prompt merging_tokenizer 512 False False newline_point))) = 208"
proof -
  obtain r where
    r: "generate_and_tokenize_prompt merging_tokenizer 512 False False newline_point = Inr r"
    and l: "length (input_ids r) = 207" "length (labels r) = 208"
    using newline_run by blast
  show ?thesis unfolding r using l by simp
qed

text \<open>
  Claim C3. Take an example with the three columns whose full prompt the tokenizer
  encodes as at least one token, and \<^verbatim>\<open>train_on_inputs\<close> true. Then
  \<^verbatim>\<open>generate_and_tokenize_prompt\<close> returns what \<^verbatim>\<open>tokenize\<close> returned for the full prompt,
  untouched: its labels are its input ids, element for element.
\<close>

theorem train_on_inputs_keeps_labels:
  assumes "dp ''instruction'' = Some instruction" and "dp ''input'' = Some input"
      and "dp ''output'' = Some output"
      and "input_ids (tok_call tk (full_prompt instruction input output) cl) \<noteq> []"
  shows "\<exists>r. generate_and_tokenize_prompt tk cl True aet dp = Inr r
           \<and> tokenize tk cl (full_prompt instruction input output) True = Inr r
           \<and> labels r = input_ids r"
proof -
  obtain r where tf: "tokenize tk cl (full_prompt instruction input output) True = Inr r"
    using tokenize_returns[OF assms(4)] by blast
  with assms(1-3) have "generate_and_tokenize_prompt tk cl True aet dp = Inr r"
    by (simp add: generate_and_tokenize_prompt_def)
  moreover from tf have "labels r = input_ids r" by (rule tokenize_labels)
  ultimately show ?thesis using tf by blast
qed

text \<open>A run of C3: the labels end with the ids of the response and of eos.\<close>

theorem train_on_inputs_keeps_labels_witness:
  "\<exists>r. generate_and_tokenize_prompt char_tokenizer 512 True False sample_point = Inr r
     \<and> labels r = input_ids r \<and> drop 207 (labels r) = [99, 100, 0]"
proof -
  from train_on_inputs_keeps_labels[OF sample_point_columns sample_encodings_nonempty(1),
         where aet = False]
  obtain r where
    r: "generate_and_tokenize_prompt char_tokenizer 512 True False sample_point = Inr r"
    and tf: "tokenize char_tokenizer 512 (full_prompt ''a'' ''b'' ''cd'') True = Inr r"
    and l: "labels r = input_ids r"
    by blast
  have "drop 207 (input_ids r) = [99, 100, 0]"
    using sample_full_tail unfolding tf by simp
  with r l show ?thesis by simp
qed

section \<open>The trace of \<^verbatim>\<open>train\<close>\<close>

lemma fst_then_run:
  "fst (then_run m f) = fst m @ (case snd m of Inl e \<Rightarrow> [] | Inr a \<Rightarrow> fst (f a))"
  by (auto simp: then_run_def split: prod.splits sum.splits)

lemma snd_then_run:
  "snd (then_run m f) = (case snd m of Inl e \<Rightarrow> Inl e | Inr a \<Rightarrow> snd (f a))"
  by (auto simp: then_run_def split: prod.splits sum.splits)

text \<open>What the pieces return. Only three of them can raise.\<close>

lemma snd_ingest_arguments:
  "snd (ingest_arguments w p) = (if base_model p = [] then Inl AssertionError else Inr ())"
  by (simp add: ingest_arguments_def)

lemma snd_load_model_and_tokenizer:
  "snd (load_model_and_tokenizer w p dm)
     = Inr (Pretrained (base_model p) True Float16 dm, pretrained_tokenizer w (base_model p))"
  by (simp add: load_model_and_tokenizer_def Let_def)

lemma snd_attach_adapter: "snd (attach_adapter p m) = Inr (Peft (Prepared m) (config p))"
  by (simp add: attach_adapter_def)

lemma load_data_result: "\<exists>src. load_data w p = ([Load_dataset src], Inr (load_dataset w src))"
  by (simp add: load_data_def Let_def)

lemma snd_restore_checkpoint: "snd (restore_checkpoint w p m) \<noteq> Inl e"
  by (auto simp: restore_checkpoint_def Let_def split: option.splits prod.splits)

lemma snd_make_trainer: "snd (make_trainer w p ddp gas m td vd) = Inr ()"
  by (simp add: make_trainer_def)

lemma snd_train_and_save: "snd (train_and_save w p m r) = Inr ()"
  by (simp add: train_and_save_def Let_def)

text \<open>The events of a run, and the exception that ends it, in terms of the pieces.\<close>

lemma train_trace:
  "fst (train w p) =
     fst (ingest_arguments w p) @
     (if base_model p = [] then []
      else fst (gradient_accumulation w p) @
        (case snd (gradient_accumulation w p) of
           Inl e \<Rightarrow> []
         | Inr (dm, gas, ddp) \<Rightarrow>
             (let m = Peft (Prepared (Pretrained (base_model p) True Float16 dm)) (config p);
                  b = build_datasets w p (pretrained_tokenizer w (base_model p))
                        (projr (snd (load_data w p)))
              in fst (load_model_and_tokenizer w p dm)
               @ fst (attach_adapter p (Pretrained (base_model p) True Float16 dm))
               @ fst (load_data w p)
               @ fst (restore_checkpoint w p m)
               @ [Print_trainable_parameters m]
               @ fst b
               @ (case snd b of
                    Inl e \<Rightarrow> []
                  | Inr (td, vd) \<Rightarrow>
                      fst (make_trainer w p ddp gas m td vd)
                    @ fst (train_and_save w p m (projr (snd (restore_checkpoint w p m))))))))"
proof -
  have fst_out: "fst (case x of (t, Inl e) \<Rightarrow> (t, Some e) | (t, Inr _) \<Rightarrow> (t, None)) = fst x"
    for x :: "unit run"
    by (auto split: prod.splits sum.splits)
  obtain src where src: "load_data w p = ([Load_dataset src], Inr (load_dataset w src))"
    using load_data_result by blast
  show ?thesis
    unfolding train_def fst_out
    by (auto simp add: snd_restore_checkpoint fst_then_run snd_then_run snd_ingest_arguments
          snd_load_model_and_tokenizer snd_attach_adapter src snd_make_trainer
          snd_train_and_save Let_def split: sum.splits prod.splits)
qed

lemma train_error:
  "snd (train w p) =
     (if base_model p = [] then Some AssertionError
      else case snd (gradient_accumulation w p) of
             Inl e \<Rightarrow> Some e
           | Inr _ \<Rightarrow>
               (case snd (build_datasets w p (pretrained_tokenizer w (base_model p))
                            (projr (snd (load_data w p)))) of
                  Inl e \<Rightarrow> Some e
                | Inr _ \<Rightarrow> None))"
proof -
  have snd_out: "snd (case x of (t, Inl e) \<Rightarrow> (t, Some e) | (t, Inr _) \<Rightarrow> (t, None))
                   = (case snd x of Inl e \<Rightarrow> Some e | Inr _ \<Rightarrow> None)"
    for x :: "unit run"
    by (auto split: prod.splits sum.splits)
  obtain src where src: "load_data w p = ([Load_dataset src], Inr (load_dataset w src))"
    using load_data_result by blast
  show ?thesis
    unfolding train_def snd_out
    by (auto simp add: snd_restore_checkpoint fst_then_run snd_then_run snd_ingest_arguments
          snd_load_model_and_tokenizer snd_attach_adapter src snd_make_trainer
          snd_train_and_save Let_def split: sum.splits prod.splits)
qed

text \<open>A run that completes went through every piece.\<close>

lemma train_completed:
  assumes "train w p = (tr, None)"
  obtains dm gas ddp m data resume td vd where
    "base_model p \<noteq> []"
    "snd (gradient_accumulation w p) = Inr (dm, gas, ddp)"
    "m = Peft (Prepared (Pretrained (base_model p) True Float16 dm)) (config p)"
    "snd (load_data w p) = Inr data"
    "snd (restore_checkpoint w p m) = Inr resume"
    "snd (build_datasets w p (pretrained_tokenizer w (base_model p)) data) = Inr (td, vd)"
    "tr = fst (ingest_arguments w p)
        @ fst (gradient_accumulation w p)
        @ fst (load_model_and_tokenizer w p dm)
        @ fst (attach_adapter p (Pretrained (base_model p) True Float16 dm))
        @ fst (load_data w p)
        @ fst (restore_checkpoint w p m)
        @ [Print_trainable_parameters m]
        @ fst (build_datasets w p (pretrained_tokenizer w (base_model p)) data)
        @ fst (make_trainer w p ddp gas m td vd)
        @ fst (train_and_save w p m resume)"
proof -
  from assms have e: "snd (train w p) = None" and t: "tr = fst (train w p)"
    by simp_all
  from e have b: "base_model p \<noteq> []"
    by (auto simp: train_error split: if_splits)
  from e b obtain dm gas ddp where g: "snd (gradient_accumulation w p) = Inr (dm, gas, ddp)"
    by (auto simp: train_error split: sum.splits)
  define m where "m = Peft (Prepared (Pretrained (base_model p) True Float16 dm)) (config p)"
  obtain data where l: "snd (load_data w p) = Inr data"
    using load_data_result[of w p] by auto
  obtain resume where r: "snd (restore_checkpoint w p m) = Inr resume"
    using snd_restore_checkpoint[of w p m] by (cases "snd (restore_checkpoint w p m)") auto
  from e b g l obtain td vd where
    d: "snd (build_datasets w p (pretrained_tokenizer w (base_model p)) data) = Inr (td, vd)"
    by (auto simp: train_error split: sum.splits)
  show thesis
    by (rule that[OF b g m_def l r d]) (simp add: t train_trace b g d l r Let_def m_def[symmetric])
qed

lemma completed_run: "snd (train w p) = None \<Longrightarrow> train w p = (fst (train w p), None)"
  by (simp add: prod_eq_iff)

text \<open>The events of the pieces that do not branch.\<close>

lemma fst_ingest_arguments:
  "fst (ingest_arguments w p) = (if local_rank w = 0 then [Print_hyperparameters p] else [])"
  by (simp add: ingest_arguments_def)

lemma fst_load_model_and_tokenizer:
  "fst (load_model_and_tokenizer w p dm) =
     [Model_from_pretrained (base_model p) True Float16 dm,
      Tokenizer_from_pretrained (base_model p),
      Print_special_tokens (bos_token_id (pretrained_tokenizer w (base_model p)))
        (eos_token_id (pretrained_tokenizer w (base_model p)))
        (pad_token_id (pretrained_tokenizer w (base_model p))),
      Set_padding_side ''right'']"
  by (simp add: load_model_and_tokenizer_def Let_def)

lemma fst_attach_adapter:
  "fst (attach_adapter p m) =
     [Prepare_model_for_int8_training m, Get_peft_model (Prepared m) (config p)]"
  by (simp add: attach_adapter_def)

lemma fst_load_data: "\<exists>src. fst (load_data w p) = [Load_dataset src]"
  by (simp add: load_data_def Let_def)

lemma fst_make_trainer:
  "fst (make_trainer w p ddp gas m td vd) =
     (if \<not> ddp \<and> cuda_device_count w > 1 then [Set_model_parallel m] else [])
     @ [Trainer_init \<lparr>tr_model = m, tr_train_dataset = td, tr_eval_dataset = vd,
          tr_args = args p gas,
          tr_data_collator =
            \<lparr>dc_pad_to_multiple_of = 8, dc_return_tensors = ''pt'', dc_padding = True\<rparr>\<rparr>]"
  by (simp add: make_trainer_def)

lemma fst_train_and_save:
  "\<exists>pre m'. fst (train_and_save w p m r) =
     pre @ [Print_banner 321, Print_resume r, Trainer_train r,
            Model_save_pretrained m' (output_dir p),
            Torch_save (path_join (output_dir p) ''pytorch_model.bin''),
            Tokenizer_save_pretrained (output_dir p)]
     \<and> set pre \<subseteq> {Set_use_cache m False, Torch_compile m}"
  by (auto simp: train_and_save_def Let_def)

text \<open>The kinds of events of the pieces that branch.\<close>

lemma gradient_accumulation_events:
  "e \<in> set (fst (gradient_accumulation w p)) \<Longrightarrow>
     (\<exists>n. e = Print_world_size n) \<or> (\<exists>d. e = Print_device_map d)
     \<or> (\<exists>n. e = Print_gradient_accumulation_steps n)"
  by (auto simp: gradient_accumulation_def Let_def split: if_splits)

lemma restore_checkpoint_events:
  "e \<in> set (fst (restore_checkpoint w p m)) \<Longrightarrow> is_checkpoint_event e"
  by (auto simp: restore_checkpoint_def Let_def split: option.splits if_splits prod.splits)

lemma build_datasets_events:
  "e \<in> set (fst (build_datasets w p tk data)) \<Longrightarrow>
     (\<exists>n. e = Train_test_split n) \<or> (\<exists>d. e = Shuffle_and_map d) \<or> (\<exists>n. e = Print_banner n)
     \<or> (\<exists>x. e = Print_sample x) \<or> (\<exists>x. e = Print_decoded x) \<or> (\<exists>x. e = Print_label x)"
  by (auto simp: build_datasets_def Let_def split: if_splits sum.splits list.splits)

lemma map_filter_append:
  "List.map_filter f (xs @ ys) = List.map_filter f xs @ List.map_filter f ys"
  by (simp add: List.map_filter_def)

lemma map_filter_none: "(\<And>x. x \<in> set xs \<Longrightarrow> f x = None) \<Longrightarrow> List.map_filter f xs = []"
  by (induction xs) (simp_all add:)

lemma filter_none: "(\<And>x. x \<in> set xs \<Longrightarrow> \<not> P x) \<Longrightarrow> filter P xs = []"
  by (induction xs) simp_all

text \<open>The equations that evaluate a run of \<^verbatim>\<open>train\<close> on a sample environment.\<close>

lemmas train_defs =
  train_def then_run_def ingest_arguments_def gradient_accumulation_def
  load_model_and_tokenizer_def attach_adapter_def load_data_def restore_checkpoint_def
  build_datasets_def make_trainer_def train_and_save_def local_rank_def endswith_def
  path_join_def config_def args_def

lemma sample_train_completes: "snd (train sample_world sample_params) = None"
  by (simp add: train_defs sample_world_def sample_params_def sample_defs)

lemma ddp_train_completes: "snd (train ddp_world sample_params) = None"
  by (simp add: train_defs ddp_world_def sample_world_def sample_params_def sample_defs)

lemma sample_gradient_accumulation:
  "snd (gradient_accumulation sample_world sample_params) = Inr (Auto, 16, False)"
  by (simp add: gradient_accumulation_def sample_world_def sample_params_def)

section \<open>The stages of a run\<close>

lemma staged_build_datasets:
  "snd (build_datasets w p tk data) = Inr (td, vd) \<Longrightarrow>
   staged (fst (build_datasets w p tk data))
     = (if val_set_size p > 0
        then [Train_test_split (val_set_size p), Shuffle_and_map Split_train,
              Shuffle_and_map Split_test]
        else [Shuffle_and_map Loaded_train])"
  by (auto simp: staged_def build_datasets_def Let_def
        split: sum.splits list.splits if_splits)

lemma stages_staged: "stages t = remdups_adj (map (\<lambda>e. the (stage_of e)) (staged t))"
  by (simp add: stages_def staged_def List.map_filter_def comp_def)

text \<open>
  Claim C6, amended. Every run of \<^verbatim>\<open>train\<close> that completes goes through the stages in
  this order, none skipped and none out of place: loading the base model and the
  tokenizer, attaching the adapter (\<^verbatim>\<open>prepare_model_for_int8_training\<close>, then
  \<^verbatim>\<open>get_peft_model\<close>), loading and tokenizing the dataset, the delegated training loop
  (\<^verbatim>\<open>trainer.train\<close>), saving the model and the tokenizer to \<^verbatim>\<open>output_dir\<close>; before
  them the arguments are printed, by the process of local rank 0 only. The calls of the
  stages are the ones listed, with these arguments.
\<close>

theorem stages_in_order:
  assumes "train w p = (tr, None)"
  shows "stages tr = (if local_rank w = 0 then [Arguments] else [])
                     @ [Load, Adapter, Data, Training_loop, Save]
       \<and> (\<exists>dm src resume m'.
            staged tr =
              (if local_rank w = 0 then [Print_hyperparameters p] else [])
              @ [Model_from_pretrained (base_model p) True Float16 dm,
                 Tokenizer_from_pretrained (base_model p),
                 Prepare_model_for_int8_training (Pretrained (base_model p) True Float16 dm),
                 Get_peft_model (Prepared (Pretrained (base_model p) True Float16 dm)) (config p),
                 Load_dataset src]
              @ (if val_set_size p > 0
                 then [Train_test_split (val_set_size p), Shuffle_and_map Split_train,
                       Shuffle_and_map Split_test]
                 else [Shuffle_and_map Loaded_train])
              @ [Trainer_train resume,
                 Model_save_pretrained m' (output_dir p),
                 Torch_save (path_join (output_dir p) ''pytorch_model.bin''),
                 Tokenizer_save_pretrained (output_dir p)])"
proof -
  from assms obtain dm gas ddp m data resume td vd where
    d: "snd (build_datasets w p (pretrained_tokenizer w (base_model p)) data) = Inr (td, vd)"
    and tr: "tr = fst (ingest_arguments w p)
        @ fst (gradient_accumulation w p)
        @ fst (load_model_and_tokenizer w p dm)
        @ fst (attach_adapter p (Pretrained (base_model p) True Float16 dm))
        @ fst (load_data w p)
        @ fst (restore_checkpoint w p m)
        @ [Print_trainable_parameters m]
        @ fst (build_datasets w p (pretrained_tokenizer w (base_model p)) data)
        @ fst (make_trainer w p ddp gas m td vd)
        @ fst (train_and_save w p m resume)"
    by (elim train_completed)
  have g: "staged (fst (gradient_accumulation w p)) = []"
    unfolding staged_def by (rule filter_none) (auto dest!: gradient_accumulation_events)
  have r: "staged (fst (restore_checkpoint w p m)) = []"
    unfolding staged_def
    by (rule filter_none, drule restore_checkpoint_events, erule is_checkpoint_event.elims)
       simp_all
  obtain src where l: "fst (load_data w p) = [Load_dataset src]"
    using fst_load_data by blast
  obtain pre m' where s: "fst (train_and_save w p m resume) =
     pre @ [Print_banner 321, Print_resume resume, Trainer_train resume,
            Model_save_pretrained m' (output_dir p),
            Torch_save (path_join (output_dir p) ''pytorch_model.bin''),
            Tokenizer_save_pretrained (output_dir p)]"
    and pre: "set pre \<subseteq> {Set_use_cache m False, Torch_compile m}"
    using fst_train_and_save by blast
  have pre': "staged pre = []"
    unfolding staged_def using pre by (intro filter_none) auto
  have app: "staged (xs @ ys) = staged xs @ staged ys" for xs ys
    by (simp add: staged_def)
  have cons: "staged (e # xs) = (if stage_of e \<noteq> None then e # staged xs else staged xs)"
    "staged [] = []" for e xs
    by (simp_all add: staged_def)
  have st: "staged tr =
              (if local_rank w = 0 then [Print_hyperparameters p] else [])
              @ [Model_from_pretrained (base_model p) True Float16 dm,
                 Tokenizer_from_pretrained (base_model p),
                 Prepare_model_for_int8_training (Pretrained (base_model p) True Float16 dm),
                 Get_peft_model (Prepared (Pretrained (base_model p) True Float16 dm)) (config p),
                 Load_dataset src]
              @ (if val_set_size p > 0
                 then [Train_test_split (val_set_size p), Shuffle_and_map Split_train,
                       Shuffle_and_map Split_test]
                 else [Shuffle_and_map Loaded_train])
              @ [Trainer_train resume,
                 Model_save_pretrained m' (output_dir p),
                 Torch_save (path_join (output_dir p) ''pytorch_model.bin''),
                 Tokenizer_save_pretrained (output_dir p)]"
    unfolding tr
    by (simp add: app cons g r l s pre' fst_ingest_arguments
          fst_load_model_and_tokenizer fst_attach_adapter staged_build_datasets[OF d]
          fst_make_trainer)
  have "stages tr = (if local_rank w = 0 then [Arguments] else [])
                     @ [Load, Adapter, Data, Training_loop, Save]"
    unfolding stages_staged st by simp
  with st show ?thesis by blast
qed

text \<open>A run of C6 by a single process: all six stages.\<close>

theorem stages_in_order_witness:
  "snd (train sample_world sample_params) = None
   \<and> stages (fst (train sample_world sample_params))
       = [Arguments, Load, Adapter, Data, Training_loop, Save]"
proof -
  from stages_in_order[OF completed_run[OF sample_train_completes], THEN conjunct1]
    sample_train_completes
  show ?thesis
    by (simp add: local_rank_def sample_world_def)
qed

text \<open>
  Claim C6 as stated fails: the process of local rank 1 completes its run without
  printing the arguments.
\<close>

theorem stages_in_order_counterexample:
  "snd (train ddp_world sample_params) = None
   \<and> stages (fst (train ddp_world sample_params))
       = [Load, Adapter, Data, Training_loop, Save]
   \<and> Print_hyperparameters sample_params \<notin> set (fst (train ddp_world sample_params))"
  by (simp add: train_defs stages_def ddp_world_def sample_world_def sample_params_def
        sample_defs)

section \<open>The base model and the adapter\<close>

lemma model_calls_after_datasets:
  "filter is_model_call
     (case snd (build_datasets w p tk data) of
        Inl e \<Rightarrow> []
      | Inr (td, vd) \<Rightarrow> fst (make_trainer w p ddp gas m td vd) @ fst (train_and_save w p m r))
   = []"
proof (cases "snd (build_datasets w p tk data)")
  case (Inl e)
  then show ?thesis by simp
next
  case (Inr x)
  obtain pre m' where s: "fst (train_and_save w p m r) =
     pre @ [Print_banner 321, Print_resume r, Trainer_train r,
            Model_save_pretrained m' (output_dir p),
            Torch_save (path_join (output_dir p) ''pytorch_model.bin''),
            Tokenizer_save_pretrained (output_dir p)]"
    and pre: "set pre \<subseteq> {Set_use_cache m False, Torch_compile m}"
    using fst_train_and_save by blast
  have "filter is_model_call pre = []"
    using pre by (intro filter_none) auto
  with Inr s show ?thesis
    by (cases x) (simp add: fst_make_trainer)
qed

text \<open>
  Claim C7. In every run that gets past the assertion on \<^verbatim>\<open>base_model\<close> and the
  computation of the accumulation steps, whatever happens later, the calls that load
  the base model and attach the adapter are these three, in this order: \<^verbatim>\<open>from_pretrained\<close>
  with \<^verbatim>\<open>load_in_8bit=True\<close> and \<^verbatim>\<open>torch_dtype=float16\<close>;
  \<^verbatim>\<open>prepare_model_for_int8_training\<close> on the model so loaded; \<^verbatim>\<open>get_peft_model\<close> on the
  prepared model, with the \<^verbatim>\<open>LoraConfig\<close> of \<^verbatim>\<open>lora_r\<close>, \<^verbatim>\<open>lora_alpha\<close>,
  \<^verbatim>\<open>lora_target_modules\<close>, \<^verbatim>\<open>lora_dropout\<close>, bias \<^verbatim>\<open>"none"\<close> and task type
  \<^verbatim>\<open>"CAUSAL_LM"\<close>.
\<close>

theorem base_model_8bit_prepared_then_adapter:
  assumes "base_model p \<noteq> []"
      and "snd (gradient_accumulation w p) = Inr (dm, gas, ddp)"
  shows "filter is_model_call (fst (train w p)) =
           [Model_from_pretrained (base_model p) True Float16 dm,
            Prepare_model_for_int8_training (Pretrained (base_model p) True Float16 dm),
            Get_peft_model (Prepared (Pretrained (base_model p) True Float16 dm))
              \<lparr>lc_r = lora_r p, lc_lora_alpha = lora_alpha p,
               lc_target_modules = lora_target_modules p, lc_lora_dropout = lora_dropout p,
               lc_bias = ''none'', lc_task_type = ''CAUSAL_LM''\<rparr>]"
proof -
  have g: "filter is_model_call (fst (gradient_accumulation w p)) = []"
    by (rule filter_none) (auto dest!: gradient_accumulation_events)
  have r: "filter is_model_call (fst (restore_checkpoint w p m)) = []" for m
    by (rule filter_none, drule restore_checkpoint_events, erule is_checkpoint_event.elims)
       simp_all
  have b: "filter is_model_call (fst (build_datasets w p tk data)) = []" for tk data
    by (rule filter_none) (auto dest!: build_datasets_events)
  obtain src where l: "fst (load_data w p) = [Load_dataset src]"
    using fst_load_data by blast
  show ?thesis
    unfolding train_trace
    by (simp add: assms Let_def g r b l model_calls_after_datasets fst_ingest_arguments
          fst_load_model_and_tokenizer fst_attach_adapter config_def)
qed

text \<open>A run of C7 with the default adapter arguments.\<close>

theorem base_model_8bit_prepared_then_adapter_witness:
  "filter is_model_call (fst (train sample_world sample_params)) =
     [Model_from_pretrained ''base'' True Float16 Auto,
      Prepare_model_for_int8_training (Pretrained ''base'' True Float16 Auto),
      Get_peft_model (Prepared (Pretrained ''base'' True Float16 Auto))
        \<lparr>lc_r = 16, lc_lora_alpha = 16,
         lc_target_modules = [''gate_proj'', ''down_proj'', ''up_proj''],
         lc_lora_dropout = 5 / 100, lc_bias = ''none'', lc_task_type = ''CAUSAL_LM''\<rparr>]"
proof -
  have "base_model sample_params \<noteq> []"
    by (simp add: sample_params_def)
  from base_model_8bit_prepared_then_adapter[OF this sample_gradient_accumulation]
  show ?thesis
    by (simp add: sample_params_def)
qed

section \<open>The trainer\<close>

lemma gradient_accumulation_value:
  assumes "snd (gradient_accumulation w p) = Inr (dm, gas, ddp)"
  shows "gas = (let steps = batch_size p div micro_batch_size p;
                    world_size = (case env_WORLD_SIZE w of None \<Rightarrow> 1 | Some n \<Rightarrow> n)
                in if world_size \<noteq> 1 then steps div world_size else steps)"
  using assms by (auto simp: gradient_accumulation_def Let_def split: if_splits)

lemma build_datasets_val:
  "snd (build_datasets w p tk data) = Inr (td, vd) \<Longrightarrow> (vd \<noteq> None) = (val_set_size p > 0)"
  by (auto simp: build_datasets_def Let_def split: if_splits sum.splits list.splits)

text \<open>A run that completes constructs one trainer, from the results of the pieces.\<close>

lemma trainer_completed:
  assumes "train w p = (tr, None)"
  obtains dm gas ddp m data td vd where
    "snd (gradient_accumulation w p) = Inr (dm, gas, ddp)"
    "m = Peft (Prepared (Pretrained (base_model p) True Float16 dm)) (config p)"
    "snd (load_data w p) = Inr data"
    "snd (build_datasets w p (pretrained_tokenizer w (base_model p)) data) = Inr (td, vd)"
    "trainers tr = [\<lparr>tr_model = m, tr_train_dataset = td, tr_eval_dataset = vd,
          tr_args = args p gas,
          tr_data_collator =
            \<lparr>dc_pad_to_multiple_of = 8, dc_return_tensors = ''pt'', dc_padding = True\<rparr>\<rparr>]"
proof -
  from assms obtain dm gas ddp m data resume td vd where
    ga: "snd (gradient_accumulation w p) = Inr (dm, gas, ddp)"
    and m: "m = Peft (Prepared (Pretrained (base_model p) True Float16 dm)) (config p)"
    and ld: "snd (load_data w p) = Inr data"
    and d: "snd (build_datasets w p (pretrained_tokenizer w (base_model p)) data) = Inr (td, vd)"
    and tr: "tr = fst (ingest_arguments w p)
        @ fst (gradient_accumulation w p)
        @ fst (load_model_and_tokenizer w p dm)
        @ fst (attach_adapter p (Pretrained (base_model p) True Float16 dm))
        @ fst (load_data w p)
        @ fst (restore_checkpoint w p m)
        @ [Print_trainable_parameters m]
        @ fst (build_datasets w p (pretrained_tokenizer w (base_model p)) data)
        @ fst (make_trainer w p ddp gas m td vd)
        @ fst (train_and_save w p m resume)"
    by (elim train_completed) blast
  have g: "List.map_filter trainer_of (fst (gradient_accumulation w p)) = []"
    by (rule map_filter_none) (auto dest!: gradient_accumulation_events)
  have r: "List.map_filter trainer_of (fst (restore_checkpoint w p m)) = []"
    by (rule map_filter_none, drule restore_checkpoint_events, erule is_checkpoint_event.elims)
       simp_all
  have b: "List.map_filter trainer_of
             (fst (build_datasets w p (pretrained_tokenizer w (base_model p)) data)) = []"
    by (rule map_filter_none) (auto dest!: build_datasets_events)
  obtain src where l: "fst (load_data w p) = [Load_dataset src]"
    using fst_load_data by blast
  obtain pre m' where s: "fst (train_and_save w p m resume) =
     pre @ [Print_banner 321, Print_resume resume, Trainer_train resume,
            Model_save_pretrained m' (output_dir p),
            Torch_save (path_join (output_dir p) ''pytorch_model.bin''),
            Tokenizer_save_pretrained (output_dir p)]"
    and pre: "set pre \<subseteq> {Set_use_cache m False, Torch_compile m}"
    using fst_train_and_save by blast
  have pre': "List.map_filter trainer_of pre = []"
    using pre by (intro map_filter_none) auto
  have "trainers tr = [\<lparr>tr_model = m, tr_train_dataset = td, tr_eval_dataset = vd,
          tr_args = args p gas,
          tr_data_collator =
            \<lparr>dc_pad_to_multiple_of = 8, dc_return_tensors = ''pt'', dc_padding = True\<rparr>\<rparr>]"
    unfolding tr trainers_def
    by (simp add: map_filter_append g r b l s pre' fst_ingest_arguments
          fst_load_model_and_tokenizer fst_attach_adapter fst_make_trainer
         )
  with ga m ld d show thesis by (rule that)
qed

text \<open>It calls \<^verbatim>\<open>trainer.train\<close> once, with the value \<^verbatim>\<open>restore_checkpoint\<close> left.\<close>

lemma train_calls_completed:
  assumes "train w p = (tr, None)"
  shows "\<exists>m. train_calls tr = [projr (snd (restore_checkpoint w p m))]"
proof -
  from assms obtain dm gas ddp m data resume td vd where
    rc: "snd (restore_checkpoint w p m) = Inr resume"
    and tr: "tr = fst (ingest_arguments w p)
        @ fst (gradient_accumulation w p)
        @ fst (load_model_and_tokenizer w p dm)
        @ fst (attach_adapter p (Pretrained (base_model p) True Float16 dm))
        @ fst (load_data w p)
        @ fst (restore_checkpoint w p m)
        @ [Print_trainable_parameters m]
        @ fst (build_datasets w p (pretrained_tokenizer w (base_model p)) data)
        @ fst (make_trainer w p ddp gas m td vd)
        @ fst (train_and_save w p m resume)"
    by (elim train_completed) blast
  have g: "List.map_filter resumed_with (fst (gradient_accumulation w p)) = []"
    by (rule map_filter_none) (auto dest!: gradient_accumulation_events)
  have r: "List.map_filter resumed_with (fst (restore_checkpoint w p m)) = []"
    by (rule map_filter_none, drule restore_checkpoint_events, erule is_checkpoint_event.elims)
       simp_all
  have b: "List.map_filter resumed_with
             (fst (build_datasets w p (pretrained_tokenizer w (base_model p)) data)) = []"
    by (rule map_filter_none) (auto dest!: build_datasets_events)
  obtain src where l: "fst (load_data w p) = [Load_dataset src]"
    using fst_load_data by blast
  obtain pre m' where s: "fst (train_and_save w p m resume) =
     pre @ [Print_banner 321, Print_resume resume, Trainer_train resume,
            Model_save_pretrained m' (output_dir p),
            Torch_save (path_join (output_dir p) ''pytorch_model.bin''),
            Tokenizer_save_pretrained (output_dir p)]"
    and pre: "set pre \<subseteq> {Set_use_cache m False, Torch_compile m}"
    using fst_train_and_save by blast
  have pre': "List.map_filter resumed_with pre = []"
    using pre by (intro map_filter_none) auto
  have "train_calls tr = [resume]"
    unfolding tr train_calls_def
    by (simp add: map_filter_append g r b l s pre' fst_ingest_arguments
          fst_load_model_and_tokenizer fst_attach_adapter fst_make_trainer
         )
  with rc show ?thesis by (intro exI[of _ m]) simp
qed

text \<open>
  Claim C8. A run that completes constructs one \<^verbatim>\<open>Trainer\<close> and calls its \<^verbatim>\<open>train\<close>
  once. Its arguments come from the hyperparameters: \<^verbatim>\<open>per_device_train_batch_size\<close> is
  \<^verbatim>\<open>micro_batch_size\<close>; \<^verbatim>\<open>gradient_accumulation_steps\<close> is \<^verbatim>\<open>batch_size // micro_batch_size\<close>,
  divided again by the world size when that is not 1; \<^verbatim>\<open>warmup_steps\<close>,
  \<^verbatim>\<open>num_train_epochs\<close>, \<^verbatim>\<open>learning_rate\<close> and \<^verbatim>\<open>lr_scheduler_type\<close> are the arguments of the
  same names; \<^verbatim>\<open>fp16\<close> is true; the evaluation strategy is \<^verbatim>\<open>"steps"\<close> with
  \<^verbatim>\<open>eval_steps\<close> 200, the best model is loaded at the end and there is an evaluation
  dataset exactly when \<^verbatim>\<open>val_set_size > 0\<close>, and otherwise the strategy is \<^verbatim>\<open>"no"\<close> and
  \<^verbatim>\<open>eval_steps\<close> is \<^verbatim>\<open>None\<close>.
\<close>

theorem trainer_configured_from_hyperparameters:
  assumes "train w p = (tr, None)"
  shows "\<exists>t. trainers tr = [t] \<and> length (train_calls tr) = 1
           \<and> ta_per_device_train_batch_size (tr_args t) = micro_batch_size p
           \<and> ta_gradient_accumulation_steps (tr_args t) =
               (let steps = batch_size p div micro_batch_size p;
                    world_size = (case env_WORLD_SIZE w of None \<Rightarrow> 1 | Some n \<Rightarrow> n)
                in if world_size \<noteq> 1 then steps div world_size else steps)
           \<and> ta_warmup_steps (tr_args t) = warmup_steps p
           \<and> ta_num_train_epochs (tr_args t) = num_epochs p
           \<and> ta_learning_rate (tr_args t) = learning_rate p
           \<and> ta_lr_scheduler_type (tr_args t) = lr_scheduler p
           \<and> ta_fp16 (tr_args t) = True
           \<and> ta_evaluation_strategy (tr_args t)
               = (if val_set_size p > 0 then ''steps'' else ''no'')
           \<and> ta_eval_steps (tr_args t) = (if val_set_size p > 0 then Some 200 else None)
           \<and> ta_load_best_model_at_end (tr_args t) = (val_set_size p > 0)
           \<and> (tr_eval_dataset t \<noteq> None) = (val_set_size p > 0)"
proof -
  from assms obtain dm gas ddp m data td vd where
    ga: "snd (gradient_accumulation w p) = Inr (dm, gas, ddp)"
    and d: "snd (build_datasets w p (pretrained_tokenizer w (base_model p)) data) = Inr (td, vd)"
    and t: "trainers tr = [\<lparr>tr_model = m, tr_train_dataset = td, tr_eval_dataset = vd,
          tr_args = args p gas,
          tr_data_collator =
            \<lparr>dc_pad_to_multiple_of = 8, dc_return_tensors = ''pt'', dc_padding = True\<rparr>\<rparr>]"
    by (elim trainer_completed) blast
  from train_calls_completed[OF assms] have c: "length (train_calls tr) = 1"
    by auto
  show ?thesis
    unfolding t using c build_datasets_val[OF d] gradient_accumulation_value[OF ga]
    by (simp add: args_def)
qed

text \<open>A run of C8 with the default hyperparameters: 128 // 8 = 16 accumulation steps.\<close>

theorem trainer_configured_from_hyperparameters_witness:
  "snd (train sample_world sample_params) = None
   \<and> map tr_args (trainers (fst (train sample_world sample_params))) =
       [\<lparr>ta_per_device_train_batch_size = 8, ta_gradient_accumulation_steps = 16,
         ta_warmup_steps = 100, ta_num_train_epochs = 1, ta_learning_rate = 3 / 10000,
         ta_fp16 = True, ta_logging_steps = 1, ta_optim = ''adamw_torch'',
         ta_evaluation_strategy = ''no'', ta_save_strategy = ''steps'', ta_eval_steps = None,
         ta_save_steps = 1000, ta_lr_scheduler_type = ''cosine'', ta_output_dir = ''out'',
         ta_save_total_limit = 2, ta_load_best_model_at_end = False,
         ta_ddp_find_unused_parameters = False, ta_group_by_length = False,
         ta_remove_unused_columns = True\<rparr>]"
proof -
  note run = completed_run[OF sample_train_completes]
  from trainer_configured_from_hyperparameters[OF run] obtain t where
    t: "trainers (fst (train sample_world sample_params)) = [t]"
    and "ta_gradient_accumulation_steps (tr_args t) = 16"
    by (auto simp: sample_world_def sample_params_def)
  from run obtain gas where "tr_args t = args sample_params gas"
    by (elim trainer_completed) (auto simp: t)
  with \<open>ta_gradient_accumulation_steps (tr_args t) = 16\<close>
  have "tr_args t = args sample_params 16"
    by (simp add: args_def)
  with t sample_train_completes show ?thesis
    by (simp add: args_def sample_params_def)
qed

section \<open>The gradient accumulation steps\<close>




section \<open>Resuming from a checkpoint\<close>

text \<open>The argument \<^verbatim>\<open>resume_from_checkpoint\<close> is read by \<^verbatim>\<open>restore_checkpoint\<close> only.\<close>

lemma resume_irrelevant:
  "base_model (p\<lparr>resume_from_checkpoint := x\<rparr>) = base_model p"
  "gradient_accumulation w (p\<lparr>resume_from_checkpoint := x\<rparr>) = gradient_accumulation w p"
  "load_data w (p\<lparr>resume_from_checkpoint := x\<rparr>) = load_data w p"
  "build_datasets w (p\<lparr>resume_from_checkpoint := x\<rparr>) tk data = build_datasets w p tk data"
  by (simp_all add: gradient_accumulation_def load_data_def build_datasets_def Let_def
        cong: if_cong sum.case_cong list.case_cong)

lemma checkpoint_events_completed:
  assumes "train w p = (tr, None)"
  shows "\<exists>dm gas ddp. snd (gradient_accumulation w p) = Inr (dm, gas, ddp)
           \<and> filter is_checkpoint_event tr =
               fst (restore_checkpoint w p
                  (Peft (Prepared (Pretrained (base_model p) True Float16 dm)) (config p)))"
proof -
  from assms obtain dm gas ddp m data resume td vd where
    ga: "snd (gradient_accumulation w p) = Inr (dm, gas, ddp)"
    and m: "m = Peft (Prepared (Pretrained (base_model p) True Float16 dm)) (config p)"
    and tr: "tr = fst (ingest_arguments w p)
        @ fst (gradient_accumulation w p)
        @ fst (load_model_and_tokenizer w p dm)
        @ fst (attach_adapter p (Pretrained (base_model p) True Float16 dm))
        @ fst (load_data w p)
        @ fst (restore_checkpoint w p m)
        @ [Print_trainable_parameters m]
        @ fst (build_datasets w p (pretrained_tokenizer w (base_model p)) data)
        @ fst (make_trainer w p ddp gas m td vd)
        @ fst (train_and_save w p m resume)"
    by (elim train_completed) blast
  have g: "filter is_checkpoint_event (fst (gradient_accumulation w p)) = []"
    by (rule filter_none) (auto dest!: gradient_accumulation_events)
  have r: "filter is_checkpoint_event (fst (restore_checkpoint w p m))
             = fst (restore_checkpoint w p m)"
    by (simp add: filter_id_conv restore_checkpoint_events)
  have b: "filter is_checkpoint_event
             (fst (build_datasets w p (pretrained_tokenizer w (base_model p)) data)) = []"
    by (rule filter_none) (auto dest!: build_datasets_events)
  obtain src where l: "fst (load_data w p) = [Load_dataset src]"
    using fst_load_data by blast
  obtain pre m' where s: "fst (train_and_save w p m resume) =
     pre @ [Print_banner 321, Print_resume resume, Trainer_train resume,
            Model_save_pretrained m' (output_dir p),
            Torch_save (path_join (output_dir p) ''pytorch_model.bin''),
            Tokenizer_save_pretrained (output_dir p)]"
    and pre: "set pre \<subseteq> {Set_use_cache m False, Torch_compile m}"
    using fst_train_and_save by blast
  have pre': "filter is_checkpoint_event pre = []"
    using pre by (intro filter_none) auto
  have "filter is_checkpoint_event tr = fst (restore_checkpoint w p m)"
    unfolding tr
    by (simp add: g r b l s pre' fst_ingest_arguments
          fst_load_model_and_tokenizer fst_attach_adapter fst_make_trainer)
  with ga show ?thesis unfolding m by blast
qed

text \<open>
  Claim C10. Let \<^verbatim>\<open>resume_from_checkpoint\<close> name a directory (a non-empty string) that
  holds no \<^verbatim>\<open>pytorch_model.bin\<close>. Then the checkpoint is looked for at
  \<^verbatim>\<open>adapter_model.bin\<close> in that directory and \<^verbatim>\<open>resume_from_checkpoint\<close> becomes \<^verbatim>\<open>False\<close>:
  if that file exists, the restart is announced and its weights are loaded and set into
  the model; if it does not, the only effect is the message that it was not found. No
  exception is raised: the run ends as it would with no checkpoint named. A run that
  completes has called \<^verbatim>\<open>trainer.train\<close> with \<^verbatim>\<open>False\<close>, and its checkpoint events are
  those above, on the model with the adapter attached.
\<close>

theorem adapter_checkpoint_fallback:
  assumes "resume_from_checkpoint p = Some dir" and "dir \<noteq> []"
      and "\<not> path_exists w (path_join dir ''pytorch_model.bin'')"
  shows "restore_checkpoint w p m =
           ((if path_exists w (path_join dir ''adapter_model.bin'')
             then [Print_restarting (path_join dir ''adapter_model.bin''),
                   Torch_load (path_join dir ''adapter_model.bin''),
                   Set_peft_model_state_dict m (path_join dir ''adapter_model.bin'')]
             else [Print_not_found (path_join dir ''adapter_model.bin'')]),
            Inr Resume_false)
       \<and> snd (train w p) = snd (train w (p\<lparr>resume_from_checkpoint := None\<rparr>))
       \<and> (train w p = (tr, None) \<longrightarrow>
            train_calls tr = [Resume_false]
          \<and> (\<exists>dm gas ddp. snd (gradient_accumulation w p) = Inr (dm, gas, ddp)
                \<and> filter is_checkpoint_event tr =
                    fst (restore_checkpoint w p
                      (Peft (Prepared (Pretrained (base_model p) True Float16 dm)) (config p)))))"
proof (intro conjI impI)
  show rc: "restore_checkpoint w p m =
           ((if path_exists w (path_join dir ''adapter_model.bin'')
             then [Print_restarting (path_join dir ''adapter_model.bin''),
                   Torch_load (path_join dir ''adapter_model.bin''),
                   Set_peft_model_state_dict m (path_join dir ''adapter_model.bin'')]
             else [Print_not_found (path_join dir ''adapter_model.bin'')]),
            Inr Resume_false)" for m
    using assms by (simp add: restore_checkpoint_def Let_def)
  show "snd (train w p) = snd (train w (p\<lparr>resume_from_checkpoint := None\<rparr>))"
    by (simp add: train_error resume_irrelevant cong: if_cong sum.case_cong)
  assume run: "train w p = (tr, None)"
  from train_calls_completed[OF run] show "train_calls tr = [Resume_false]"
    by (auto simp: rc)
  from run show "\<exists>dm gas ddp. snd (gradient_accumulation w p) = Inr (dm, gas, ddp)
                \<and> filter is_checkpoint_event tr =
                    fst (restore_checkpoint w p
                      (Peft (Prepared (Pretrained (base_model p) True Float16 dm)) (config p)))"
    by (rule checkpoint_events_completed)
qed

lemma resumed_train_completes:
  "snd (train adapter_only_world (sample_params\<lparr>resume_from_checkpoint := Some ''ckpt''\<rparr>)) = None"
  by (simp add: train_defs adapter_only_world_def sample_world_def sample_params_def sample_defs)

text \<open>
  Runs of C10 for the directory \<^verbatim>\<open>ckpt\<close>: where only the adapter weights exist they are
  loaded into the adapted model and the trainer is told \<^verbatim>\<open>False\<close>; where nothing exists
  the message is the only event.
\<close>

theorem adapter_checkpoint_fallback_witness:
  "snd (train adapter_only_world (sample_params\<lparr>resume_from_checkpoint := Some ''ckpt''\<rparr>)) = None
   \<and> train_calls (fst (train adapter_only_world
         (sample_params\<lparr>resume_from_checkpoint := Some ''ckpt''\<rparr>))) = [Resume_false]
   \<and> filter is_checkpoint_event (fst (train adapter_only_world
         (sample_params\<lparr>resume_from_checkpoint := Some ''ckpt''\<rparr>))) =
       [Print_restarting ''ckpt/adapter_model.bin'', Torch_load ''ckpt/adapter_model.bin'',
        Set_peft_model_state_dict
          (Peft (Prepared (Pretrained ''base'' True Float16 Auto)) (config sample_params))
          ''ckpt/adapter_model.bin'']
   \<and> restore_checkpoint sample_world (sample_params\<lparr>resume_from_checkpoint := Some ''ckpt''\<rparr>)
         (Peft (Prepared (Pretrained ''base'' True Float16 Auto)) (config sample_params))
       = ([Print_not_found ''ckpt/adapter_model.bin''], Inr Resume_false)"
proof -
  let ?p = "sample_params\<lparr>resume_from_checkpoint := Some ''ckpt''\<rparr>"
  let ?tr = "fst (train adapter_only_world ?p)"
  let ?m = "Peft (Prepared (Pretrained ''base'' True Float16 Auto)) (config sample_params)"
  have h: "resume_from_checkpoint ?p = Some ''ckpt''" "''ckpt'' \<noteq> []"
    "\<not> path_exists adapter_only_world (path_join ''ckpt'' ''pytorch_model.bin'')"
    by (simp_all add: adapter_only_world_def sample_world_def path_join_def)
  have h': "\<not> path_exists sample_world (path_join ''ckpt'' ''pytorch_model.bin'')"
    by (simp add: sample_world_def)
  have e: "path_exists adapter_only_world ''ckpt/adapter_model.bin''"
    "\<not> path_exists sample_world ''ckpt/adapter_model.bin''"
    "path_join ''ckpt'' ''adapter_model.bin'' = ''ckpt/adapter_model.bin''"
    by (simp_all add: adapter_only_world_def sample_world_def path_join_def)
  note run = completed_run[OF resumed_train_completes]
  have ga: "snd (gradient_accumulation adapter_only_world ?p) = Inr (Auto, 16, False)"
    by (simp add: gradient_accumulation_def adapter_only_world_def sample_world_def
          sample_params_def)
  have m: "Peft (Prepared (Pretrained (base_model ?p) True Float16 Auto)) (config ?p) = ?m"
    by (simp add: config_def sample_params_def)
  note fallback = adapter_checkpoint_fallback[OF h, of ?m ?tr]
  from fallback[THEN conjunct1]
  have rc: "fst (restore_checkpoint adapter_only_world ?p ?m) =
              [Print_restarting ''ckpt/adapter_model.bin'', Torch_load ''ckpt/adapter_model.bin'',
               Set_peft_model_state_dict ?m ''ckpt/adapter_model.bin'']"
    by (simp add: e)
  from adapter_checkpoint_fallback[OF h(1,2) h', of ?m "[]", THEN conjunct1]
  have nf: "restore_checkpoint sample_world ?p ?m
              = ([Print_not_found ''ckpt/adapter_model.bin''], Inr Resume_false)"
    by (simp add: e)
  note after = fallback[THEN conjunct2, THEN conjunct2, THEN mp, OF run]
  from after[THEN conjunct2] obtain dm gas ddp where
    "snd (gradient_accumulation adapter_only_world ?p) = Inr (dm, gas, ddp)"
    and f: "filter is_checkpoint_event ?tr =
              fst (restore_checkpoint adapter_only_world ?p
                (Peft (Prepared (Pretrained (base_model ?p) True Float16 dm)) (config ?p)))"
    by blast
  with ga have "dm = Auto" by simp
  with f have "filter is_checkpoint_event ?tr = fst (restore_checkpoint adapter_only_world ?p ?m)"
    by (simp only: m)
  with rc nf after[THEN conjunct1] resumed_train_completes show ?thesis
    by simp
qed

section \<open>The training dataset\<close>

lemma map_examples_Inr:
  "map_examples f xs = Inr ys \<longleftrightarrow> list_all2 (\<lambda>x y. f x = Inr y) xs ys"
proof (induction xs arbitrary: ys)
  case Nil
  then show ?case by auto
next
  case (Cons x xs)
  show ?case
  proof (cases "f x")
    case (Inl e)
    then show ?thesis by (auto simp: list_all2_Cons1)
  next
    case (Inr y)
    then show ?thesis
      using Cons.IH by (cases "map_examples f xs") (auto simp: list_all2_Cons1)
  qed
qed

lemma build_datasets_train_data:
  assumes "snd (build_datasets w p tk data) = Inr (td, vd)"
  shows "map_examples
           (generate_and_tokenize_prompt tk (cutoff_len p) (train_on_inputs p) (add_eos_token p))
           (ds_shuffle w (if val_set_size p > 0
                          then fst (train_test_split w (val_set_size p) data) else data))
         = Inr td"
  using assms
  by (auto simp: build_datasets_def Let_def split: if_splits sum.splits list.splits)

lemma build_datasets_val_data:
  assumes "snd (build_datasets w p tk data) = Inr (td, vd)" and "val_set_size p > 0"
  shows "\<exists>xs. vd = Some xs
           \<and> map_examples
               (generate_and_tokenize_prompt tk (cutoff_len p) (train_on_inputs p)
                  (add_eos_token p))
               (ds_shuffle w (snd (train_test_split w (val_set_size p) data))) = Inr xs"
  using assms
  by (auto simp: build_datasets_def Let_def split: if_splits sum.splits list.splits)

text \<open>
  Claim C4, amended. In a run that completes, the training dataset of the trainer is
  made by \<^verbatim>\<open>generate_and_tokenize_prompt\<close>, example by example and in order, from the
  shuffled dataset: the whole loaded dataset when \<^verbatim>\<open>val_set_size\<close> is not positive, and
  the train part of its split when it is positive (the held-out part, mapped by the
  same function, is the evaluation dataset). For each example, the input ids and the
  attention mask are those \<^verbatim>\<open>tokenize\<close> returns for the Alpaca template filled with the
  example's instruction, input and output.
\<close>

theorem training_set_from_template:
  assumes "train w p = (tr, None)"
  shows "\<exists>t data.
           trainers tr = [t] \<and> snd (load_data w p) = Inr data
         \<and> list_all2
             (\<lambda>dp ex.
                generate_and_tokenize_prompt (pretrained_tokenizer w (base_model p))
                  (cutoff_len p) (train_on_inputs p) (add_eos_token p) dp = Inr ex
              \<and> (\<exists>instruction input output tfp.
                    dp ''instruction'' = Some instruction \<and> dp ''input'' = Some input
                  \<and> dp ''output'' = Some output
                  \<and> tokenize (pretrained_tokenizer w (base_model p)) (cutoff_len p)
                      (full_prompt instruction input output) True = Inr tfp
                  \<and> input_ids ex = input_ids tfp \<and> attention_mask ex = attention_mask tfp))
             (ds_shuffle w (if val_set_size p > 0
                            then fst (train_test_split w (val_set_size p) data) else data))
             (tr_train_dataset t)
         \<and> (if val_set_size p > 0
            then \<exists>vd. tr_eval_dataset t = Some vd
                   \<and> list_all2
                       (\<lambda>dp ex.
                          generate_and_tokenize_prompt (pretrained_tokenizer w (base_model p))
                            (cutoff_len p) (train_on_inputs p) (add_eos_token p) dp = Inr ex)
                       (ds_shuffle w (snd (train_test_split w (val_set_size p) data))) vd
            else tr_eval_dataset t = None)"
proof -
  let ?tk = "pretrained_tokenizer w (base_model p)"
  let ?f = "generate_and_tokenize_prompt ?tk (cutoff_len p) (train_on_inputs p) (add_eos_token p)"
  from assms obtain gas m data td vd where
    ld: "snd (load_data w p) = Inr data"
    and d: "snd (build_datasets w p ?tk data) = Inr (td, vd)"
    and t: "trainers tr = [\<lparr>tr_model = m, tr_train_dataset = td, tr_eval_dataset = vd,
          tr_args = args p gas,
          tr_data_collator =
            \<lparr>dc_pad_to_multiple_of = 8, dc_return_tensors = ''pt'', dc_padding = True\<rparr>\<rparr>]"
    by (elim trainer_completed) blast
  let ?xs = "ds_shuffle w (if val_set_size p > 0
                           then fst (train_test_split w (val_set_size p) data) else data)"
  from build_datasets_train_data[OF d]
  have "list_all2 (\<lambda>dp ex. ?f dp = Inr ex) ?xs td"
    by (simp add: map_examples_Inr)
  then have train: "list_all2
             (\<lambda>dp ex. ?f dp = Inr ex
              \<and> (\<exists>instruction input output tfp.
                    dp ''instruction'' = Some instruction \<and> dp ''input'' = Some input
                  \<and> dp ''output'' = Some output
                  \<and> tokenize ?tk (cutoff_len p) (full_prompt instruction input output) True = Inr tfp
                  \<and> input_ids ex = input_ids tfp \<and> attention_mask ex = attention_mask tfp))
             ?xs td"
    by (rule list_all2_mono) (use generate_from_template in blast)
  have val: "if val_set_size p > 0
            then \<exists>xs. vd = Some xs
                   \<and> list_all2 (\<lambda>dp ex. ?f dp = Inr ex)
                       (ds_shuffle w (snd (train_test_split w (val_set_size p) data))) xs
            else vd = None"
  proof (cases "val_set_size p > 0")
    case True
    from build_datasets_val_data[OF d True] True show ?thesis
      by (simp add: map_examples_Inr)
  next
    case False
    with build_datasets_val[OF d] show ?thesis by simp
  qed
  from t ld train val show ?thesis
    by (intro exI[of _ "\<lparr>tr_model = m, tr_train_dataset = td, tr_eval_dataset = vd,
          tr_args = args p gas,
          tr_data_collator =
            \<lparr>dc_pad_to_multiple_of = 8, dc_return_tensors = ''pt'', dc_padding = True\<rparr>\<rparr>"]
          exI[of _ data]) simp
qed

text \<open>
  A run of C4 with no validation set: the two examples of the dataset, in shuffled
  order, each mapped by \<^verbatim>\<open>generate_and_tokenize_prompt\<close>.
\<close>

theorem training_set_from_template_witness:
  "snd (train sample_world sample_params) = None
   \<and> (\<exists>t. trainers (fst (train sample_world sample_params)) = [t]
          \<and> list_all2
               (\<lambda>dp ex. generate_and_tokenize_prompt char_tokenizer 4 False False dp = Inr ex)
               [newline_point, sample_point] (tr_train_dataset t))"
proof -
  note run = completed_run[OF sample_train_completes]
  from training_set_from_template[OF run] obtain t data where
    t: "trainers (fst (train sample_world sample_params)) = [t]"
    and ld: "snd (load_data sample_world sample_params) = Inr data"
    and l: "list_all2
             (\<lambda>dp ex.
                generate_and_tokenize_prompt
                  (pretrained_tokenizer sample_world (base_model sample_params))
                  (cutoff_len sample_params) (train_on_inputs sample_params)
                  (add_eos_token sample_params) dp = Inr ex
              \<and> (\<exists>instruction input output tfp.
                    dp ''instruction'' = Some instruction \<and> dp ''input'' = Some input
                  \<and> dp ''output'' = Some output
                  \<and> tokenize (pretrained_tokenizer sample_world (base_model sample_params))
                      (cutoff_len sample_params)
                      (full_prompt instruction input output) True = Inr tfp
                  \<and> input_ids ex = input_ids tfp \<and> attention_mask ex = attention_mask tfp))
             (ds_shuffle sample_world
                (if val_set_size sample_params > 0
                 then fst (train_test_split sample_world (val_set_size sample_params) data)
                 else data))
             (tr_train_dataset t)"
    by blast
  from ld have data: "data = [sample_point, newline_point]"
    by (simp add: load_data_def sample_world_def)
  from l have "list_all2
          (\<lambda>dp ex. generate_and_tokenize_prompt char_tokenizer 4 False False dp = Inr ex
             \<and> (\<exists>instruction input output tfp.
                    dp ''instruction'' = Some instruction \<and> dp ''input'' = Some input
                  \<and> dp ''output'' = Some output
                  \<and> tokenize char_tokenizer 4 (full_prompt instruction input output) True = Inr tfp
                  \<and> input_ids ex = input_ids tfp \<and> attention_mask ex = attention_mask tfp))
          [newline_point, sample_point] (tr_train_dataset t)"
    unfolding data by (simp add: sample_world_def sample_params_def)
  then have "list_all2
          (\<lambda>dp ex. generate_and_tokenize_prompt char_tokenizer 4 False False dp = Inr ex)
          [newline_point, sample_point] (tr_train_dataset t)"
    by (rule list_all2_mono) blast
  with t sample_train_completes show ?thesis by blast
qed

lemma held_out_train_completes:
  "snd (train sample_world (sample_params\<lparr>val_set_size := 1\<rparr>)) = None"
  by (simp add: train_defs sample_world_def sample_params_def sample_defs)

lemma held_out_trainers:
  "map (length \<circ> tr_train_dataset)
     (trainers (fst (train sample_world (sample_params\<lparr>val_set_size := 1\<rparr>)))) = [1]"
  by (simp add: train_defs trainers_def sample_world_def sample_params_def
        sample_defs)

text \<open>
  Claim C4 as stated fails when \<^verbatim>\<open>val_set_size\<close> is positive: of the two examples
  loaded, one is held out, and the training dataset has one example.
\<close>

theorem training_set_from_template_counterexample:
  "snd (train sample_world (sample_params\<lparr>val_set_size := 1\<rparr>)) = None
   \<and> snd (load_data sample_world (sample_params\<lparr>val_set_size := 1\<rparr>))
       = Inr [sample_point, newline_point]
   \<and> map (length \<circ> tr_train_dataset)
        (trainers (fst (train sample_world (sample_params\<lparr>val_set_size := 1\<rparr>)))) = [1]"
  using held_out_trainers held_out_train_completes
  by (simp add: load_data_def sample_world_def)

end
